theory Spec2Isabelle
  imports Complex_Main "HOL-Library.Sublist"
begin

section \<open>Thrown values\<close>

text \<open>
  A JavaScript \<open>throw\<close> carries any value. The code distinguishes instances of \<open>Error\<close>
  (which have a \<open>message\<close>) from everything else (\<open>error instanceof Error\<close> in the
  consumer loop), so both kinds are kept. A promise that rejects is the \<open>Inl\<close> of a sum.
\<close>

datatype thrown = Error string | NonError string

text \<open>
  \<open>(error as Error).message\<close>: the message of an \<open>Error\<close>; a thrown primitive has no such
  property, and a template string prints the missing property as \<open>undefined\<close>.
\<close>

fun message_of :: "thrown \<Rightarrow> string" where
  "message_of (Error m) = m"
| "message_of (NonError v) = ''undefined''"

section \<open>CircuitBreaker (shared/utils/circuit-breaker.ts)\<close>

datatype breaker_status = CLOSED | OPEN | HALF_OPEN

record CircuitBreakerState =
  status :: breaker_status
  failureCount :: nat
  lastFailureTime :: int
  threshold :: int
  timeout :: int

text \<open>
  The wrapped operation is a closure \<open>() => Promise<T>\<close>. It acts on the world outside the
  breaker (type \<open>'w\<close>), resolves (\<open>Inr\<close>) or rejects (\<open>Inl\<close>), and all it can see of the
  breaker is the copy that \<open>getState()\<close> returns at the moment it runs: the first argument.
  \<open>Date.now()\<close> is read off the world by a \<open>clock\<close>.
\<close>

type_synonym ('a, 'w) operation = "CircuitBreakerState \<Rightarrow> 'w \<Rightarrow> (thrown + 'a) \<times> 'w"

definition new_CircuitBreaker :: "int \<Rightarrow> int \<Rightarrow> CircuitBreakerState" where
  "new_CircuitBreaker failureThreshold timeoutMs =
     \<lparr>status = CLOSED, failureCount = 0, lastFailureTime = 0,
      threshold = failureThreshold, timeout = timeoutMs\<rparr>"

definition default_CircuitBreaker :: CircuitBreakerState where
  "default_CircuitBreaker = new_CircuitBreaker 5 60000"

definition shouldAttemptReset :: "int \<Rightarrow> CircuitBreakerState \<Rightarrow> bool" where
  "shouldAttemptReset now s \<longleftrightarrow> now - lastFailureTime s \<ge> timeout s"

definition onSuccess :: "CircuitBreakerState \<Rightarrow> CircuitBreakerState" where
  "onSuccess s = s\<lparr>failureCount := 0, status := CLOSED\<rparr>"

definition onFailure :: "int \<Rightarrow> CircuitBreakerState \<Rightarrow> CircuitBreakerState" where
  "onFailure now s =
     (let s1 = s\<lparr>failureCount := failureCount s + 1, lastFailureTime := now\<rparr>
      in if int (failureCount s1) \<ge> threshold s1 then s1\<lparr>status := OPEN\<rparr> else s1)"

text \<open>Lines 32-39 of \<open>execute\<close>: run the operation, then \<open>onSuccess\<close> or \<open>onFailure\<close>.\<close>

definition run_operation ::
  "('w \<Rightarrow> int) \<Rightarrow> ('a, 'w) operation \<Rightarrow> CircuitBreakerState \<Rightarrow> 'w
     \<Rightarrow> (thrown + 'a) \<times> CircuitBreakerState \<times> 'w" where
  "run_operation clock operation s w =
     (case operation s w of
        (Inr result, w') \<Rightarrow> (Inr result, onSuccess s, w')
      | (Inl error, w') \<Rightarrow> (Inl error, onFailure (clock w') s, w'))"

definition execute ::
  "('w \<Rightarrow> int) \<Rightarrow> ('a, 'w) operation \<Rightarrow> CircuitBreakerState \<Rightarrow> 'w
     \<Rightarrow> (thrown + 'a) \<times> CircuitBreakerState \<times> 'w" where
  "execute clock operation s w =
     (if status s = OPEN then
        (if shouldAttemptReset (clock w) s
         then run_operation clock operation (s\<lparr>status := HALF_OPEN\<rparr>) w
         else (Inl (Error ''Circuit breaker is OPEN''), s, w))
      else run_operation clock operation s w)"

text \<open>Calls of \<open>execute\<close> one after the other, as a caller awaiting each makes them.\<close>

fun executes ::
  "('w \<Rightarrow> int) \<Rightarrow> ('a, 'w) operation list \<Rightarrow> CircuitBreakerState \<Rightarrow> 'w
     \<Rightarrow> (thrown + 'a) list \<times> CircuitBreakerState \<times> 'w" where
  "executes clock [] s w = ([], s, w)"
| "executes clock (operation # rest) s w =
     (case execute clock operation s w of
        (r, s', w') \<Rightarrow>
          (case executes clock rest s' w' of (rs, s'', w'') \<Rightarrow> (r # rs, s'', w'')))"

text \<open>
  What holds of the state between two calls: \<open>OPEN\<close> is only ever entered by \<open>onFailure\<close>
  with the count at the threshold, and \<open>HALF_OPEN\<close> never outlives the call that entered it.
\<close>

definition between_calls :: "CircuitBreakerState \<Rightarrow> bool" where
  "between_calls s \<longleftrightarrow>
     status s = CLOSED \<or> (status s = OPEN \<and> threshold s \<le> int (failureCount s))"


section \<open>The runtime the services run on\<close>

text \<open>
  What the code takes from its runtime rather than computes: the clock (\<open>Date.now()\<close>,
  \<open>new Date()\<close>), \<open>Math.random()\<close>, timers (\<open>setTimeout\<close>, which lets time pass),
  \<open>uuidv4()\<close> and the text \<open>Math.random().toString(36).substr(2, 9)\<close>. Each is a
  function on the world.
\<close>

record 'w runtime =
  date_now :: "'w \<Rightarrow> int"
  math_random :: "'w \<Rightarrow> rat"
  sleep :: "rat \<Rightarrow> 'w \<Rightarrow> 'w"
  uuidv4 :: "'w \<Rightarrow> string \<times> 'w"
  random_base36 :: "'w \<Rightarrow> string"

section \<open>Numbers in template strings\<close>

definition digit :: "nat \<Rightarrow> char" where
  "digit d = ''0123456789'' ! d"

function show_nat :: "nat \<Rightarrow> string" where
  "show_nat n = (if n < 10 then [digit n] else show_nat (n div 10) @ [digit (n mod 10)])"
  by pat_completeness auto
termination
  by (relation "measure id") auto

definition show_int :: "int \<Rightarrow> string" where
  "show_int i = (if i < 0 then CHR ''-'' # show_nat (nat (- i)) else show_nat (nat i))"

text \<open>\<open>String.prototype.includes\<close>: the argument occurs as a contiguous piece.\<close>

definition str_includes :: "string \<Rightarrow> string \<Rightarrow> bool" where
  "str_includes text piece \<longleftrightarrow> sublist piece text"

section \<open>RetryHandler\<close>

record RetryConfig =
  maxAttempts :: int
  backoffMs :: rat
  maxBackoffMs :: rat
  jitter :: bool

text \<open>\<open>Partial<RetryConfig>\<close>: every key may be absent.\<close>

record PartialRetryConfig =
  maxAttempts_opt :: "int option"
  backoffMs_opt :: "rat option"
  maxBackoffMs_opt :: "rat option"
  jitter_opt :: "bool option"

definition no_config :: PartialRetryConfig where
  "no_config = \<lparr>maxAttempts_opt = None, backoffMs_opt = None, maxBackoffMs_opt = None,
                 jitter_opt = None\<rparr>"

text \<open>The constructor: the defaults, overridden by the keys the caller gives.\<close>

definition createRetryHandler :: "PartialRetryConfig \<Rightarrow> RetryConfig" where
  "createRetryHandler config =
     \<lparr>maxAttempts = (case maxAttempts_opt config of Some v \<Rightarrow> v | None \<Rightarrow> 3),
      backoffMs = (case backoffMs_opt config of Some v \<Rightarrow> v | None \<Rightarrow> 1000),
      maxBackoffMs = (case maxBackoffMs_opt config of Some v \<Rightarrow> v | None \<Rightarrow> 10000),
      jitter = (case jitter_opt config of Some v \<Rightarrow> v | None \<Rightarrow> True)\<rparr>"

text \<open>
  \<open>calculateDelay\<close>; \<open>r\<close> is what \<open>Math.random()\<close> returns. The loop calls it with
  \<open>attempt \<ge> 1\<close> only, where \<open>Math.pow(2, attempt - 1)\<close> is a power of a natural number.
\<close>

definition calculateDelay :: "RetryConfig \<Rightarrow> int \<Rightarrow> rat \<Rightarrow> rat" where
  "calculateDelay config attempt r =
     (let baseDelay = backoffMs config * 2 ^ nat (attempt - 1);
          jitteredDelay = (if jitter config then baseDelay * (1/2 + r * (1/2)) else baseDelay)
      in min jitteredDelay (maxBackoffMs config))"

text \<open>
  The \<open>for\<close> loop of \<open>RetryHandler.execute\<close>, from \<open>attempt\<close> on. The result carries the
  delays slept, in order. After the loop, \<open>throw lastError!\<close> throws whatever \<open>lastError\<close>
  holds, \<open>undefined\<close> when no attempt was made.
\<close>

function retry_from ::
  "'w runtime \<Rightarrow> RetryConfig \<Rightarrow> ('w \<Rightarrow> (thrown + 'a) \<times> 'w) \<Rightarrow> int \<Rightarrow> thrown option \<Rightarrow> 'w
     \<Rightarrow> (thrown + 'a) \<times> rat list \<times> 'w" where
  "retry_from rt config operation attempt lastError w =
     (if attempt \<le> maxAttempts config then
        (case operation w of
           (Inr result, w') \<Rightarrow> (Inr result, [], w')
         | (Inl error, w') \<Rightarrow>
             if attempt = maxAttempts config then
               (Inl (Error (''Operation failed after '' @ show_int attempt @ '' attempts: ''
                            @ message_of error)), [], w')
             else
               (let delay = calculateDelay config attempt (math_random rt w')
                in case retry_from rt config operation (attempt + 1) (Some error)
                          (sleep rt delay w') of
                     (r, delays, w'') \<Rightarrow> (r, delay # delays, w'')))
      else (Inl (case lastError of Some e \<Rightarrow> e | None \<Rightarrow> NonError ''undefined''), [], w))"
  by pat_completeness auto
termination
  by (relation "measure (\<lambda>(rt, config, operation, attempt, lastError, w).
                  nat (maxAttempts config + 1 - attempt))") auto

definition retry_execute ::
  "'w runtime \<Rightarrow> RetryConfig \<Rightarrow> ('w \<Rightarrow> (thrown + 'a) \<times> 'w) \<Rightarrow> 'w
     \<Rightarrow> (thrown + 'a) \<times> rat list \<times> 'w" where
  "retry_execute rt config operation w = retry_from rt config operation 1 None w"

text \<open>The factor of the documented formula for the delay.\<close>

definition jitterFactor :: "RetryConfig \<Rightarrow> rat \<Rightarrow> rat" where
  "jitterFactor config r = (if jitter config then 1/2 + r * (1/2) else 1)"

text \<open>
  The handler of the test scenario:
  \<open>new RetryHandler({ backoffMs: 1000, jitter: false, maxAttempts: 3 })\<close>.
\<close>

definition scenario_config :: RetryConfig where
  "scenario_config =
     createRetryHandler
       (no_config\<lparr>backoffMs_opt := Some 1000, jitter_opt := Some False, maxAttempts_opt := Some 3\<rparr>)"

section \<open>Shared types (shared/types/index.ts)\<close>

datatype OrderStatus = PENDING | CONFIRMED | PROCESSING | SHIPPED | DELIVERED | CANCELLED


record OrderItem =
  item_productId :: string
  item_quantity :: int
  item_price :: rat
  item_name :: string

text \<open>Values of a \<open>Record<string, any>\<close>, as far as the code writes them.\<close>

datatype json = JString string | JNumber rat | JDate int | JUndefined

type_synonym metadata = "string \<rightharpoonup> json"

datatype inventory_action = reserve | release | update | alert

text \<open>
  The \<open>data\<close> of an event, one variant per family: \<open>OrderEvent\<close> (orderId, customerId,
  items, total, status, createdAt, updatedAt), \<open>InventoryEvent\<close> (productId, quantity,
  action, orderId, currentStock), or none for a bare \<open>BaseEvent\<close>.
\<close>

datatype event_data =
    OrderData string string "OrderItem list" rat OrderStatus int int
  | InventoryData string int inventory_action "string option" int
  | NoData

record BaseEvent =
  ev_id :: string
  ev_type :: string
  ev_version :: string
  ev_timestamp :: int
  ev_source :: string
  ev_correlationId :: "string option"
  ev_data :: event_data

record MessageQueueOptions =
  durable :: "bool option"
  persistent :: "bool option"
  deadLetterExchange :: "string option"
  deadLetterRoutingKey :: "string option"
  messageTtl :: "int option"
  maxRetries :: "int option"

record MessageQueueConfig =
  url :: string
  exchange :: string
  queue :: string
  routingKey :: string
  options :: "MessageQueueOptions option"

section \<open>MessageQueueManager\<close>

text \<open>
  The broker library and \<open>JSON\<close> are not part of the repository: what their calls do to
  the world and whether they throw is left open. A channel and a connection are handles.
\<close>

record ConsumeMessage =
  content :: string
  deliveryTag :: nat

record publication =
  pub_exchange :: string
  pub_routingKey :: string
  pub_content :: string
  pub_persistent :: bool
  pub_messageId :: string
  pub_correlationId :: "string option"
  pub_timestamp :: int
  pub_header_version :: string
  pub_header_source :: string

record 'w amqplib =
  channel_publish :: "nat \<Rightarrow> publication \<Rightarrow> 'w \<Rightarrow> (thrown + bool) \<times> 'w"
  channel_consume :: "nat \<Rightarrow> string \<Rightarrow> 'w \<Rightarrow> (thrown + unit) \<times> 'w"
  channel_ack :: "nat \<Rightarrow> ConsumeMessage \<Rightarrow> 'w \<Rightarrow> (thrown + unit) \<times> 'w"
  channel_nack :: "nat \<Rightarrow> ConsumeMessage \<Rightarrow> bool \<Rightarrow> bool \<Rightarrow> 'w \<Rightarrow> (thrown + unit) \<times> 'w"
  channel_close :: "nat \<Rightarrow> 'w \<Rightarrow> (thrown + unit) \<times> 'w"
  connection_close :: "nat \<Rightarrow> 'w \<Rightarrow> (thrown + unit) \<times> 'w"
  json_stringify :: "BaseEvent \<Rightarrow> string"
  json_parse :: "string \<Rightarrow> thrown + BaseEvent"

record MessageQueueManager =
  mq_config :: MessageQueueConfig
  connection :: "nat option"
  channel :: "nat option"
  circuitBreaker :: CircuitBreakerState
  reconnectAttempts :: nat

definition new_MessageQueueManager :: "MessageQueueConfig \<Rightarrow> MessageQueueManager" where
  "new_MessageQueueManager cfg =
     \<lparr>mq_config = cfg, connection = None, channel = None,
      circuitBreaker = new_CircuitBreaker 3 30000, reconnectAttempts = 0\<rparr>"

text \<open>\<open>this.config.options?.persistent ?? true\<close>\<close>

definition persistent_flag :: "MessageQueueConfig \<Rightarrow> bool" where
  "persistent_flag cfg =
     (case options cfg of
        None \<Rightarrow> True
      | Some opts \<Rightarrow> (case persistent opts of None \<Rightarrow> True | Some b \<Rightarrow> b))"

text \<open>\<open>routingKey || this.config.routingKey\<close>: an absent or empty key falls back.\<close>

definition routing_key_or :: "string option \<Rightarrow> MessageQueueConfig \<Rightarrow> string" where
  "routing_key_or key cfg =
     (case key of None \<Rightarrow> routingKey cfg | Some k \<Rightarrow> if k = [] then routingKey cfg else k)"

text \<open>The closure that \<open>publishEvent\<close> hands to the circuit breaker.\<close>

definition publish_body ::
  "'w amqplib \<Rightarrow> ('w \<Rightarrow> int) \<Rightarrow> MessageQueueManager \<Rightarrow> BaseEvent \<Rightarrow> string option
     \<Rightarrow> (bool, 'w) operation" where
  "publish_body amqp clock m event key snapshot w =
     (case channel m of
        None \<Rightarrow> (Inl (Error ''Channel not initialized''), w)
      | Some ch \<Rightarrow>
          channel_publish amqp ch
            \<lparr>pub_exchange = exchange (mq_config m),
             pub_routingKey = routing_key_or key (mq_config m),
             pub_content = json_stringify amqp event,
             pub_persistent = persistent_flag (mq_config m),
             pub_messageId = ev_id event,
             pub_correlationId = ev_correlationId event,
             pub_timestamp = clock w,
             pub_header_version = ev_version event,
             pub_header_source = ev_source event\<rparr> w)"

definition publishEvent ::
  "'w amqplib \<Rightarrow> ('w \<Rightarrow> int) \<Rightarrow> MessageQueueManager \<Rightarrow> BaseEvent \<Rightarrow> string option \<Rightarrow> 'w
     \<Rightarrow> (thrown + bool) \<times> MessageQueueManager \<times> 'w" where
  "publishEvent amqp clock m event key w =
     (case execute clock (publish_body amqp clock m event key) (circuitBreaker m) w of
        (r, breaker, w') \<Rightarrow> (r, m\<lparr>circuitBreaker := breaker\<rparr>, w'))"

text \<open>The manager after a publish whose body raised at time \<open>now\<close>.\<close>

definition unpublished :: "int \<Rightarrow> MessageQueueManager \<Rightarrow> MessageQueueManager" where
  "unpublished now m = m\<lparr>circuitBreaker := onFailure now (circuitBreaker m)\<rparr>"

text \<open>
  \<open>!(error instanceof Error && error.message.includes('validation'))\<close>, the third argument
  of \<open>nack\<close> in the consumer.
\<close>

fun shouldRequeue :: "thrown \<Rightarrow> bool" where
  "shouldRequeue (Error m) = (\<not> str_includes m ''validation'')"
| "shouldRequeue (NonError v) = True"

text \<open>The \<open>catch\<close> block of the consumer callback. \<open>this.channel?.nack\<close> skips a null channel.\<close>

definition reject_message ::
  "'w amqplib \<Rightarrow> MessageQueueManager \<Rightarrow> ConsumeMessage \<Rightarrow> thrown \<Rightarrow> 'w \<Rightarrow> (thrown + unit) \<times> 'w" where
  "reject_message amqp m message error w =
     (case channel m of
        None \<Rightarrow> (Inr (), w)
      | Some ch \<Rightarrow> channel_nack amqp ch message False (shouldRequeue error) w)"

text \<open>
  The callback given to \<open>channel.consume\<close>, run for one delivery. \<open>json_parse\<close> stands for
  line 128 and the reads of \<open>event.type\<close> and \<open>event.id\<close> on line 129. A throw of \<open>ack\<close>
  happens inside the \<open>try\<close> and lands in the \<open>catch\<close> like any other.
\<close>

definition on_message ::
  "'w amqplib \<Rightarrow> (BaseEvent \<Rightarrow> ConsumeMessage \<Rightarrow> 'w \<Rightarrow> (thrown + unit) \<times> 'w)
     \<Rightarrow> MessageQueueManager \<Rightarrow> ConsumeMessage option \<Rightarrow> 'w \<Rightarrow> (thrown + unit) \<times> 'w" where
  "on_message amqp handler m delivery w =
     (case delivery of
        None \<Rightarrow> (Inr (), w)
      | Some message \<Rightarrow>
          (case json_parse amqp (content message) of
             Inl error \<Rightarrow> reject_message amqp m message error w
           | Inr event \<Rightarrow>
               (case handler event message w of
                  (Inl error, w1) \<Rightarrow> reject_message amqp m message error w1
                | (Inr u, w1) \<Rightarrow>
                    (case channel m of
                       None \<Rightarrow> (Inr (), w1)
                     | Some ch \<Rightarrow>
                         (case channel_ack amqp ch message w1 of
                            (Inl error, w2) \<Rightarrow> reject_message amqp m message error w2
                          | (Inr u', w2) \<Rightarrow> (Inr (), w2))))))"

text \<open>The broker runs the callback once per delivery; what a callback rejects with is dropped.\<close>

fun deliver ::
  "'w amqplib \<Rightarrow> (BaseEvent \<Rightarrow> ConsumeMessage \<Rightarrow> 'w \<Rightarrow> (thrown + unit) \<times> 'w)
     \<Rightarrow> MessageQueueManager \<Rightarrow> ConsumeMessage option list \<Rightarrow> 'w \<Rightarrow> 'w" where
  "deliver amqp handler m [] w = w"
| "deliver amqp handler m (delivery # rest) w =
     deliver amqp handler m rest (snd (on_message amqp handler m delivery w))"

text \<open>
  \<open>consumeEvents\<close>, followed by the deliveries the broker makes to the registered callback.
\<close>

definition consumeEvents ::
  "'w amqplib \<Rightarrow> (BaseEvent \<Rightarrow> ConsumeMessage \<Rightarrow> 'w \<Rightarrow> (thrown + unit) \<times> 'w)
     \<Rightarrow> MessageQueueManager \<Rightarrow> ConsumeMessage option list \<Rightarrow> 'w \<Rightarrow> (thrown + unit) \<times> 'w" where
  "consumeEvents amqp handler m deliveries w =
     (case channel m of
        None \<Rightarrow> (Inl (Error ''Channel not initialized''), w)
      | Some ch \<Rightarrow>
          (case channel_consume amqp ch (queue (mq_config m)) w of
             (Inl error, w1) \<Rightarrow> (Inl error, w1)
           | (Inr u, w1) \<Rightarrow> (Inr (), deliver amqp handler m deliveries w1)))"

text \<open>
  \<open>close\<close>: one \<open>try\<close> around both closes; the \<open>catch\<close> logs and returns. The part from
  \<open>if (this.connection)\<close> on is \<open>close_connection\<close>.
\<close>

definition close_connection ::
  "'w amqplib \<Rightarrow> MessageQueueManager \<Rightarrow> 'w \<Rightarrow> MessageQueueManager \<times> 'w" where
  "close_connection amqp m w =
     (case connection m of
        None \<Rightarrow> (m, w)
      | Some c \<Rightarrow>
          (case connection_close amqp c w of
             (Inl error, w') \<Rightarrow> (m, w')
           | (Inr u, w') \<Rightarrow> (m\<lparr>connection := None\<rparr>, w')))"

definition close :: "'w amqplib \<Rightarrow> MessageQueueManager \<Rightarrow> 'w \<Rightarrow> MessageQueueManager \<times> 'w" where
  "close amqp m w =
     (case channel m of
        None \<Rightarrow> close_connection amqp m w
      | Some ch \<Rightarrow>
          (case channel_close amqp ch w of
             (Inl error, w') \<Rightarrow> (m, w')
           | (Inr u, w') \<Rightarrow> close_connection amqp (m\<lparr>channel := None\<rparr>) w'))"

definition isConnected :: "MessageQueueManager \<Rightarrow> bool" where
  "isConnected m \<longleftrightarrow> connection m \<noteq> None"

section \<open>Order model and OrderService\<close>

record order =
  orderId :: string
  customerId :: string
  items :: "OrderItem list"
  total :: rat
  order_status :: OrderStatus
  createdAt :: int
  updatedAt :: int
  order_metadata :: "metadata option"

text \<open>The collection, by \<open>orderId\<close> (a unique index): \<open>Order.findOne({ orderId })\<close> is a lookup.\<close>

type_synonym orders = "string \<rightharpoonup> order"

text \<open>\<open>items.reduce((sum, item) => sum + (item.price * item.quantity), 0)\<close>\<close>

definition items_total :: "OrderItem list \<Rightarrow> rat" where
  "items_total its = foldl (\<lambda>sum item. sum + item_price item * of_int (item_quantity item)) 0 its"

text \<open>
  \<open>save()\<close> with the schema's \<open>pre('save')\<close> hook: the write is refused when the total is
  more than 0.01 away from the sum of the items. The document is written under the key
  it was read from. The schema's declarative validators are left to the store.
\<close>

definition save_order :: "string \<Rightarrow> order \<Rightarrow> orders \<Rightarrow> thrown + orders" where
  "save_order k doc store =
     (if \<bar>items_total (items doc) - total doc\<bar> > 1/100
      then Inl (Error ''Order total does not match sum of items'')
      else Inr (store(k \<mapsto> doc)))"




text \<open>
  The services publish through \<open>this.messageQueue.publishEvent(event)\<close>; the queue is
  part of the world, and \<open>publish\<close> is that call. The handler of both services is
  \<open>createRetryHandler({ maxAttempts: 3, backoffMs: 1000 })\<close>.
\<close>

type_synonym 'w publisher = "BaseEvent \<Rightarrow> 'w \<Rightarrow> (thrown + bool) \<times> 'w"

definition service_retry :: RetryConfig where
  "service_retry =
     createRetryHandler (no_config\<lparr>maxAttempts_opt := Some 3, backoffMs_opt := Some 1000\<rparr>)"

text \<open>The closure both services retry: a refused message is an error.\<close>

definition publish_or_throw :: "'w publisher \<Rightarrow> BaseEvent \<Rightarrow> 'w \<Rightarrow> (thrown + unit) \<times> 'w" where
  "publish_or_throw publish event w =
     (case publish event w of
        (Inl error, w') \<Rightarrow> (Inl error, w')
      | (Inr success, w') \<Rightarrow>
          if \<not> success then (Inl (Error ''Failed to publish event''), w') else (Inr (), w'))"

definition order_event :: "string \<Rightarrow> string \<Rightarrow> int \<Rightarrow> order \<Rightarrow> BaseEvent" where
  "order_event ident eventType now doc =
     \<lparr>ev_id = ident, ev_type = eventType, ev_version = ''1.0.0'', ev_timestamp = now,
      ev_source = ''order-service'', ev_correlationId = Some (orderId doc),
      ev_data = OrderData (orderId doc) (customerId doc) (items doc) (total doc)
                  (order_status doc) (createdAt doc) (updatedAt doc)\<rparr>"

text \<open>\<open>publishOrderEvent\<close>: what the retries end with is caught and logged.\<close>

definition publishOrderEvent :: "'w runtime \<Rightarrow> 'w publisher \<Rightarrow> string \<Rightarrow> order \<Rightarrow> 'w \<Rightarrow> 'w" where
  "publishOrderEvent rt publish eventType doc w =
     (case uuidv4 rt w of
        (ident, w1) \<Rightarrow>
          snd (snd (retry_execute rt service_retry
            (publish_or_throw publish (order_event ident eventType (date_now rt w1) doc)) w1)))"

definition createOrder ::
  "'w runtime \<Rightarrow> 'w publisher \<Rightarrow> orders \<Rightarrow> string \<Rightarrow> OrderItem list option \<Rightarrow> metadata option \<Rightarrow> 'w
     \<Rightarrow> (thrown + order) \<times> orders \<times> 'w" where
  "createOrder rt publish store customer its md w =
     (case its of
        None \<Rightarrow> (Inl (Error ''Order must contain at least one item''), store, w)
      | Some its \<Rightarrow>
          if its = [] then (Inl (Error ''Order must contain at least one item''), store, w)
          else
            (case uuidv4 rt w of
               (ident, w1) \<Rightarrow>
                 (let doc = \<lparr>orderId = ident, customerId = customer, items = its,
                             total = items_total its, order_status = PENDING,
                             createdAt = date_now rt w1, updatedAt = date_now rt w1,
                             order_metadata = md\<rparr>
                  in case save_order ident doc store of
                       Inl error \<Rightarrow> (Inl error, store, w1)
                     | Inr store' \<Rightarrow>
                         (Inr doc, store', publishOrderEvent rt publish ''order.created'' doc w1))))"

definition getOrder :: "orders \<Rightarrow> string \<Rightarrow> order option" where
  "getOrder store ident = store ident"



text \<open>What \<open>save\<close> lets into the collection.\<close>

definition saved :: "order \<Rightarrow> bool" where
  "saved doc \<longleftrightarrow> \<bar>items_total (items doc) - total doc\<bar> \<le> 1/100"

section \<open>Product model and InventoryService\<close>

text \<open>
  Of the two Product models in the repository, this is the one whose
  \<open>availableQuantity\<close> is a virtual only. The other declares a path and a virtual of that
  one name, which the schema refuses when it is built, so no document of it ever exists.
\<close>

record reservation =
  res_orderId :: string
  res_quantity :: int
  reservedAt :: int

text \<open>\<open>metadata\<close> of a product: the key \<open>reservations\<close>, which the methods use, and the rest.\<close>

record product_meta =
  reservations :: "reservation list option"
  other_keys :: metadata

record product =
  productId :: string
  product_name :: string
  description :: string
  price :: rat
  stockQuantity :: int
  reservedQuantity :: int
  category :: string
  sku :: string
  isActive :: bool
  product_metadata :: "product_meta option"

definition empty_meta :: product_meta where
  "empty_meta = \<lparr>reservations = None, other_keys = Map.empty\<rparr>"

text \<open>\<open>x || 0\<close> on a number: a falsy number is replaced by 0.\<close>

definition or_zero :: "int \<Rightarrow> int" where
  "or_zero x = (if x = 0 then 0 else x)"

text \<open>The virtual \<open>availableQuantity\<close>: a getter, nothing stored.\<close>

definition availableQuantity :: "'a product_scheme \<Rightarrow> int" where
  "availableQuantity this =
     (let stock = or_zero (stockQuantity this); reserved = or_zero (reservedQuantity this)
      in max 0 (stock - reserved))"

text \<open>The collection, a list of documents; \<open>productId\<close> is unique.\<close>

type_synonym products = "product list"

definition findOne_productId :: "products \<Rightarrow> string \<Rightarrow> product option" where
  "findOne_productId store ident = find (\<lambda>doc. productId doc = ident) store"

definition findOne_sku :: "products \<Rightarrow> string \<Rightarrow> product option" where
  "findOne_sku store code = find (\<lambda>doc. sku doc = code) store"

text \<open>
  The validators the schema declares, which \<open>save()\<close> runs before anything is written:
  the required strings are not empty and \<open>price\<close>, \<open>stockQuantity\<close> and
  \<open>reservedQuantity\<close> have \<open>min: 0\<close>.
\<close>

definition valid_product :: "'a product_scheme \<Rightarrow> bool" where
  "valid_product this \<longleftrightarrow>
     productId this \<noteq> [] \<and> product_name this \<noteq> [] \<and> description this \<noteq> []
     \<and> 0 \<le> price this \<and> 0 \<le> stockQuantity this \<and> 0 \<le> reservedQuantity this
     \<and> category this \<noteq> [] \<and> sku this \<noteq> []"

text \<open>
  What \<open>save()\<close> rejects with when a validator fails: an \<open>Error\<close> whose message starts with
  the name of the model and \<open>validation failed\<close> (it goes on to list the paths).
\<close>

definition validation_error :: "string \<Rightarrow> thrown" where
  "validation_error model = Error (model @ '' validation failed'')"

text \<open>
  \<open>metadata\<close> is a \<open>Mixed\<close> path: a change inside the object (a \<open>push\<close>, an assignment to
  one of its keys) is not tracked, and nothing in the repository marks the path modified.
  So \<open>save()\<close> writes \<open>metadata\<close> only when the path itself was assigned; the other
  paths are written as the document has them.
\<close>

definition written :: "product \<Rightarrow> bool \<Rightarrow> product \<Rightarrow> product" where
  "written this assigned old =
     (if assigned then this else this\<lparr>product_metadata := product_metadata old\<rparr>)"

text \<open>
  \<open>save()\<close>: validates, then writes over the stored document with that \<open>productId\<close>, or
  adds the document when there is none. \<open>assigned\<close> says whether the path \<open>metadata\<close> was
  assigned since the document was read.
\<close>

definition save_product :: "product \<Rightarrow> bool \<Rightarrow> products \<Rightarrow> thrown + products" where
  "save_product this assigned store =
     (if \<not> valid_product this then Inl (validation_error ''Product'')
      else Inr (if list_ex (\<lambda>old. productId old = productId this) store
                then map (\<lambda>old. if productId old = productId this
                                 then written this assigned old else old) store
                else store @ [this]))"

text \<open>
  The instance methods, each ending in \<open>await this.save()\<close>. The result is what the
  method returns or raises, the document in memory and the collection; \<open>now\<close> is
  \<open>new Date()\<close>. \<open>reserveInventory\<close> returns before any change when the stock does not
  suffice; \<open>this.metadata = {}\<close> assigns the path, the two lines after it change the
  object in place.
\<close>

definition doc_reserveInventory ::
  "products \<Rightarrow> product \<Rightarrow> int \<Rightarrow> string \<Rightarrow> int \<Rightarrow> (thrown + bool) \<times> product \<times> products" where
  "doc_reserveInventory store this quantity ident now =
     (if or_zero (availableQuantity this) < quantity then (Inr False, this, store)
      else
        (let this1 = this\<lparr>reservedQuantity := reservedQuantity this + quantity\<rparr>;
             assigned = (product_metadata this1 = None);
             meta = (case product_metadata this1 of None \<Rightarrow> empty_meta | Some m \<Rightarrow> m);
             held = (case reservations meta of None \<Rightarrow> [] | Some rs \<Rightarrow> rs);
             this2 = this1\<lparr>product_metadata :=
                       Some (meta\<lparr>reservations :=
                         Some (held @ [\<lparr>res_orderId = ident, res_quantity = quantity,
                                          reservedAt = now\<rparr>])\<rparr>)\<rparr>
         in case save_product this2 assigned store of
              Inl error \<Rightarrow> (Inl error, this2, store)
            | Inr store' \<Rightarrow> (Inr True, this2, store')))"

definition doc_releaseInventory ::
  "products \<Rightarrow> product \<Rightarrow> int \<Rightarrow> string \<Rightarrow> (thrown + unit) \<times> product \<times> products" where
  "doc_releaseInventory store this quantity ident =
     (let this1 = this\<lparr>reservedQuantity := max 0 (reservedQuantity this - quantity)\<rparr>;
          this2 = (case product_metadata this1 of
                     None \<Rightarrow> this1
                   | Some meta \<Rightarrow>
                       (case reservations meta of
                          None \<Rightarrow> this1
                        | Some rs \<Rightarrow>
                            this1\<lparr>product_metadata :=
                              Some (meta\<lparr>reservations :=
                                Some (filter (\<lambda>res. res_orderId res \<noteq> ident) rs)\<rparr>)\<rparr>))
      in case save_product this2 False store of
           Inl error \<Rightarrow> (Inl error, this2, store)
         | Inr store' \<Rightarrow> (Inr (), this2, store'))"

definition doc_updateStock ::
  "products \<Rightarrow> product \<Rightarrow> int \<Rightarrow> (thrown + unit) \<times> product \<times> products" where
  "doc_updateStock store this newQuantity =
     (let this1 = this\<lparr>stockQuantity := max 0 newQuantity\<rparr>
      in case save_product this1 False store of
           Inl error \<Rightarrow> (Inl error, this1, store)
         | Inr store' \<Rightarrow> (Inr (), this1, store'))"

fun getActionFromEventType :: "string \<Rightarrow> inventory_action" where
  "getActionFromEventType eventType =
     (if eventType = ''inventory.reserved'' then reserve
      else if eventType = ''inventory.released'' then release
      else if eventType = ''inventory.updated'' then update
      else if eventType = ''inventory.low'' then alert
      else update)"

text \<open>\<open>additionalData\<close> is \<open>{ orderId, quantity }\<close> or absent.\<close>

definition inventory_event ::
  "string \<Rightarrow> string \<Rightarrow> int \<Rightarrow> product \<Rightarrow> (string \<times> int) option \<Rightarrow> BaseEvent" where
  "inventory_event ident eventType now doc additionalData =
     \<lparr>ev_id = ident, ev_type = eventType, ev_version = ''1.0.0'', ev_timestamp = now,
      ev_source = ''inventory-service'', ev_correlationId = None,
      ev_data = InventoryData (productId doc)
                  (case additionalData of None \<Rightarrow> 0 | Some (order_id, quantity) \<Rightarrow> quantity)
                  (getActionFromEventType eventType)
                  (case additionalData of None \<Rightarrow> None | Some (order_id, quantity) \<Rightarrow> Some order_id)
                  (stockQuantity doc)\<rparr>"

definition publishInventoryEvent ::
  "'w runtime \<Rightarrow> 'w publisher \<Rightarrow> string \<Rightarrow> product \<Rightarrow> (string \<times> int) option \<Rightarrow> 'w \<Rightarrow> 'w" where
  "publishInventoryEvent rt publish eventType doc additionalData w =
     (case uuidv4 rt w of
        (ident, w1) \<Rightarrow>
          snd (snd (retry_execute rt service_retry
            (publish_or_throw publish
               (inventory_event ident eventType (date_now rt w1) doc additionalData)) w1)))"

text \<open>
  \<open>createProduct\<close>: the \<open>availableQuantity\<close> it passes to the constructor has nowhere to go,
  the schema has no such path; an absent \<open>metadata\<close> takes the schema's default \<open>{}\<close>.
  Every path of a new document is written.
\<close>

definition createProduct ::
  "'w runtime \<Rightarrow> 'w publisher \<Rightarrow> products \<Rightarrow> string \<Rightarrow> string \<Rightarrow> rat \<Rightarrow> int \<Rightarrow> string \<Rightarrow> string
     \<Rightarrow> product_meta option \<Rightarrow> 'w \<Rightarrow> (thrown + product) \<times> products \<times> 'w" where
  "createProduct rt publish store name descr cost stock cat code md w =
     (case findOne_sku store code of
        Some existing \<Rightarrow>
          (Inl (Error (''Product with SKU '' @ code @ '' already exists'')), store, w)
      | None \<Rightarrow>
          (case uuidv4 rt w of
             (ident, w1) \<Rightarrow>
               (let doc = \<lparr>productId = ident, product_name = name, description = descr,
                           price = cost, stockQuantity = stock, reservedQuantity = 0,
                           category = cat, sku = code, isActive = True,
                           product_metadata =
                             Some (case md of None \<Rightarrow> empty_meta | Some m \<Rightarrow> m)\<rparr>
                in case save_product doc True store of
                     Inl error \<Rightarrow> (Inl error, store, w1)
                   | Inr store' \<Rightarrow>
                       (Inr doc, store',
                        publishInventoryEvent rt publish ''inventory.updated'' doc None w1))))"

text \<open>\<open>{ ...product.metadata, ...metadata }\<close> on the metadata of a product.\<close>

definition spread_meta :: "product_meta option \<Rightarrow> product_meta \<Rightarrow> product_meta" where
  "spread_meta a b =
     (let a' = (case a of None \<Rightarrow> empty_meta | Some m \<Rightarrow> m)
      in \<lparr>reservations = (case reservations b of None \<Rightarrow> reservations a' | Some rs \<Rightarrow> Some rs),
          other_keys = other_keys a' ++ other_keys b\<rparr>)"

text \<open>
  The \<open>if (metadata)\<close> block of \<open>updateProductStock\<close>: \<open>product.metadata = ...\<close> assigns the
  path, so this \<open>save()\<close> writes it.
\<close>

definition merge_metadata ::
  "products \<Rightarrow> product \<Rightarrow> product_meta option \<Rightarrow> (thrown + unit) \<times> product \<times> products" where
  "merge_metadata store this md =
     (case md of
        None \<Rightarrow> (Inr (), this, store)
      | Some m \<Rightarrow>
          (let this1 = this\<lparr>product_metadata := Some (spread_meta (product_metadata this) m)\<rparr>
           in case save_product this1 True store of
                Inl error \<Rightarrow> (Inl error, this1, store)
              | Inr store' \<Rightarrow> (Inr (), this1, store')))"

definition updateProductStock ::
  "'w runtime \<Rightarrow> 'w publisher \<Rightarrow> products \<Rightarrow> string \<Rightarrow> int \<Rightarrow> product_meta option \<Rightarrow> 'w
     \<Rightarrow> (thrown + product) \<times> products \<times> 'w" where
  "updateProductStock rt publish store ident newQuantity md w =
     (case findOne_productId store ident of
        None \<Rightarrow> (Inl (Error (''Product not found: '' @ ident)), store, w)
      | Some doc \<Rightarrow>
          (case doc_updateStock store doc newQuantity of
             (Inl error, doc1, store1) \<Rightarrow> (Inl error, store1, w)
           | (Inr u, doc1, store1) \<Rightarrow>
               (case merge_metadata store1 doc1 md of
                  (Inl error, doc2, store2) \<Rightarrow> (Inl error, store2, w)
                | (Inr u', doc2, store2) \<Rightarrow>
                    (let w1 = publishInventoryEvent rt publish ''inventory.updated'' doc2 None w;
                         w2 = (if availableQuantity doc2 \<le> 10
                               then publishInventoryEvent rt publish ''inventory.low'' doc2 None w1
                               else w1)
                     in (Inr doc2, store2, w2)))))"


definition releaseInventory ::
  "'w runtime \<Rightarrow> 'w publisher \<Rightarrow> products \<Rightarrow> string \<Rightarrow> int \<Rightarrow> string \<Rightarrow> 'w
     \<Rightarrow> (thrown + unit) \<times> products \<times> 'w" where
  "releaseInventory rt publish store ident quantity order_id w =
     (case findOne_productId store ident of
        None \<Rightarrow> (Inl (Error (''Product not found: '' @ ident)), store, w)
      | Some doc \<Rightarrow>
          (case doc_releaseInventory store doc quantity order_id of
             (Inl error, doc', store') \<Rightarrow> (Inl error, store', w)
           | (Inr u, doc', store') \<Rightarrow>
               (Inr (), store',
                publishInventoryEvent rt publish ''inventory.released'' doc'
                  (Some (order_id, quantity)) w)))"

text \<open>\<open>metadata.reservations\<close> read as a list: absent is none.\<close>

definition held_reservations :: "'a product_scheme \<Rightarrow> reservation list" where
  "held_reservations doc =
     (case product_metadata doc of
        None \<Rightarrow> []
      | Some meta \<Rightarrow> (case reservations meta of None \<Rightarrow> [] | Some rs \<Rightarrow> rs))"

section \<open>Notification model and NotificationService\<close>

datatype notification_status = Pending | Sent | Failed

datatype notification_type = Email | Sms | Push

record notification =
  notificationId :: string
  recipientId :: string
  notification_type :: notification_type
  template :: string
  notification_content :: metadata
  notification_status :: notification_status
  attempts :: int
  sentAt :: "int option"
  failedAt :: "int option"
  errorMessage :: "string option"










section \<open>A runtime to run the code on\<close>

text \<open>
  The smallest world: the time in ms. Sleeping lets that many ms pass, \<open>Math.random()\<close>
  returns 0 and every identifier is the same.
\<close>

definition timer_runtime :: "int runtime" where
  "timer_runtime =
     \<lparr>date_now = (\<lambda>w. w), math_random = (\<lambda>w. 0), sleep = (\<lambda>ms w. w + \<lfloor>ms\<rfloor>),
      uuidv4 = (\<lambda>w. (''00000000-0000-4000-8000-000000000000'', w)),
      random_base36 = (\<lambda>w. ''000000000'')\<rparr>"

text \<open>An operation that takes 5 ms and rejects.\<close>

definition down :: "int \<Rightarrow> (thrown + unit) \<times> int" where
  "down w = (Inl (Error ''down''), w + 5)"

text \<open>Two operations that ignore the breaker: one takes 5 ms and rejects, one resolves.\<close>

definition failing :: "(unit, int) operation" where
  "failing snapshot w = down w"

definition succeeding :: "(unit, int) operation" where
  "succeeding snapshot w = (Inr (), w)"

text \<open>An operation that rejects, taking 5 ms, during the first 100 ms and resolves later.\<close>

definition flaky :: "(unit, int) operation" where
  "flaky snapshot w = (if w < 100 then down w else (Inr (), w))"

text \<open>The breaker of the test scenario after its third failure, at time 15.\<close>

definition tripped :: CircuitBreakerState where
  "tripped = \<lparr>status = OPEN, failureCount = 3, lastFailureTime = 15, threshold = 3,
               timeout = 60000\<rparr>"

section \<open>A broker that records its calls\<close>

datatype broker_call =
    Publish nat publication
  | Consume nat string
  | Ack nat ConsumeMessage
  | Nack nat ConsumeMessage bool bool
  | ChannelClose nat
  | ConnectionClose nat

record world =
  time :: int
  calls :: "broker_call list"
  outbox :: "BaseEvent list"

definition called :: "broker_call \<Rightarrow> world \<Rightarrow> world" where
  "called c w = w\<lparr>calls := calls w @ [c]\<rparr>"

definition sample_event :: "string \<Rightarrow> BaseEvent" where
  "sample_event text =
     \<lparr>ev_id = text, ev_type = ''test.event'', ev_version = ''1.0.0'', ev_timestamp = 0,
      ev_source = ''test-service'', ev_correlationId = None, ev_data = NoData\<rparr>"

text \<open>
  Every call succeeds and is recorded. The wire format of an event is its id; a text that
  starts with a brace is not one.
\<close>

definition recording_broker :: "world amqplib" where
  "recording_broker =
     \<lparr>channel_publish = (\<lambda>ch p w. (Inr True, called (Publish ch p) w)),
      channel_consume = (\<lambda>ch q w. (Inr (), called (Consume ch q) w)),
      channel_ack = (\<lambda>ch msg w. (Inr (), called (Ack ch msg) w)),
      channel_nack = (\<lambda>ch msg allUpTo requeue w. (Inr (), called (Nack ch msg allUpTo requeue) w)),
      channel_close = (\<lambda>ch w. (Inr (), called (ChannelClose ch) w)),
      connection_close = (\<lambda>c w. (Inr (), called (ConnectionClose c) w)),
      json_stringify = ev_id,
      json_parse = (\<lambda>text. if take 1 text = ''{'' then Inl (Error ''Unexpected end of JSON input'')
                             else Inr (sample_event text))\<rparr>"

text \<open>The same broker with a channel whose \<open>close\<close> rejects, as in the manager's own test.\<close>

definition close_failing_broker :: "world amqplib" where
  "close_failing_broker =
     recording_broker
       \<lparr>channel_close := (\<lambda>ch w. (Inl (Error ''Close failed''), called (ChannelClose ch) w))\<rparr>"

definition test_config :: MessageQueueConfig where
  "test_config =
     \<lparr>url = ''amqp://localhost:5672'', exchange = ''test.events'', queue = ''test.queue'',
      routingKey = ''test.*'', options = None\<rparr>"

text \<open>A manager after \<open>connect()\<close>: connection 1, channel 2.\<close>

definition connected_manager :: MessageQueueManager where
  "connected_manager = (new_MessageQueueManager test_config)\<lparr>connection := Some 1, channel := Some 2\<rparr>"

definition start :: world where
  "start = \<lparr>time = 0, calls = [], outbox = []\<rparr>"

definition test_message :: ConsumeMessage where
  "test_message = \<lparr>content = ''test-event-123'', deliveryTag = 1\<rparr>"

text \<open>Handlers: one resolves, one rejects with the given value.\<close>

definition handler_ok :: "BaseEvent \<Rightarrow> ConsumeMessage \<Rightarrow> world \<Rightarrow> (thrown + unit) \<times> world" where
  "handler_ok event message w = (Inr (), w)"

definition handler_throwing ::
  "thrown \<Rightarrow> BaseEvent \<Rightarrow> ConsumeMessage \<Rightarrow> world \<Rightarrow> (thrown + unit) \<times> world" where
  "handler_throwing error event message w = (Inl error, w)"

text \<open>A new manager, never connected, after three publishes at times 0, 10 and 20.\<close>

definition unplugged :: MessageQueueManager where
  "unplugged = unpublished 20 (unpublished 10 (unpublished 0 (new_MessageQueueManager test_config)))"

section \<open>A queue that accepts every event\<close>

definition service_runtime :: "world runtime" where
  "service_runtime =
     \<lparr>date_now = time, math_random = (\<lambda>w. 1/2),
      sleep = (\<lambda>ms w. w\<lparr>time := time w + \<lfloor>ms\<rfloor>\<rparr>),
      uuidv4 = (\<lambda>w. (''3f2c'', w)), random_base36 = (\<lambda>w. ''i0000000x'')\<rparr>"

definition accepting :: "world publisher" where
  "accepting event w = (Inr True, w\<lparr>outbox := outbox w @ [event]\<rparr>)"




text \<open>
  A product with 10 in stock and 4 reserved, and the document in memory after order o1
  reserved 6.
\<close>

definition gadget :: product where
  "gadget =
     \<lparr>productId = ''p1'', product_name = ''Gadget'', description = ''A gadget'', price = 50,
      stockQuantity = 10, reservedQuantity = 4, category = ''tools'', sku = ''G-1'',
      isActive = True, product_metadata = Some empty_meta\<rparr>"







section \<open>Properties of the circuit breaker\<close>

lemma run_operation_rejected:
  "operation s w = (Inl e, w') \<Longrightarrow> run_operation clock operation s w = (Inl e, onFailure (clock w') s, w')"
  by (simp add: run_operation_def)

lemma run_operation_resolved:
  "operation s w = (Inr v, w') \<Longrightarrow> run_operation clock operation s w = (Inr v, onSuccess s, w')"
  by (simp add: run_operation_def)

lemma failures_reach_threshold:
  assumes "status s = CLOSED" and "ops \<noteq> []"
    and "int (failureCount s) + int (length ops) = threshold s"
    and "list_all isl (fst (executes clock ops s w))"
  shows "status (fst (snd (executes clock ops s w))) = OPEN
       \<and> failureCount (fst (snd (executes clock ops s w))) = failureCount s + length ops"
  using assms
proof (induction ops arbitrary: s w)
  case Nil
  then show ?case by simp
next
  case (Cons operation rest)
  from Cons.prems(1)
  have closed: "execute clock operation s w = run_operation clock operation s w"
    by (simp add: execute_def)
  obtain r w1 where ran: "operation s w = (r, w1)"
    by (cases "operation s w")
  from Cons.prems(4) closed ran have "isl r"
    by (cases r) (simp_all add: run_operation_def split_beta)
  then obtain e where "r = Inl e"
    by (cases r) simp_all
  with ran have run: "run_operation clock operation s w = (Inl e, onFailure (clock w1) s, w1)"
    by (simp add: run_operation_rejected)
  let ?s1 = "onFailure (clock w1) s"
  from closed run
  have step: "execute clock operation s w = (Inl e, ?s1, w1)" by simp
  show ?case
  proof (cases "rest = []")
    case True
    with Cons.prems(1,3) have "status ?s1 = OPEN \<and> failureCount ?s1 = failureCount s + 1"
      by (simp add: onFailure_def Let_def)
    with True step show ?thesis by simp
  next
    case False
    with Cons.prems(3) have "int (failureCount s) + 1 < threshold s"
      by (cases rest) auto
    with Cons.prems(1)
    have s1: "status ?s1 = CLOSED" "failureCount ?s1 = failureCount s + 1"
      "threshold ?s1 = threshold s"
      by (auto simp: onFailure_def Let_def)
    with Cons.prems(3)
    have "int (failureCount ?s1) + int (length rest) = threshold ?s1" by simp
    moreover from Cons.prems(4) step have "list_all isl (fst (executes clock rest ?s1 w1))"
      by (simp add: split_beta)
    ultimately have IH:
      "status (fst (snd (executes clock rest ?s1 w1))) = OPEN
       \<and> failureCount (fst (snd (executes clock rest ?s1 w1))) = failureCount ?s1 + length rest"
      using Cons.IH [OF s1(1) False] by blast
    with step s1(2) show ?thesis by (simp add: split_beta)
  qed
qed

lemma execute_rejects_while_open:
  assumes "status s = OPEN" and "clock w - lastFailureTime s < timeout s"
  shows "execute clock operation s w = (Inl (Error ''Circuit breaker is OPEN''), s, w)"
  using assms by (simp add: execute_def shouldAttemptReset_def)

lemma execute_half_open:
  assumes "between_calls s" and "status s = OPEN" and "timeout s \<le> clock w - lastFailureTime s"
  shows "execute clock operation s w =
     (case operation (s\<lparr>status := HALF_OPEN\<rparr>) w of
        (Inr v, w') \<Rightarrow> (Inr v, s\<lparr>failureCount := 0, status := CLOSED\<rparr>, w')
      | (Inl e, w') \<Rightarrow>
          (Inl e, s\<lparr>failureCount := failureCount s + 1, lastFailureTime := clock w',
                     status := OPEN\<rparr>, w'))"
  using assms
  by (auto simp: execute_def shouldAttemptReset_def run_operation_def onSuccess_def onFailure_def
      between_calls_def Let_def split: prod.splits sum.splits)

lemma execute_resolved:
  assumes "execute clock operation s w = (Inr v, s', w')"
  shows "failureCount s' = 0 \<and> status s' = CLOSED"
  using assms
  by (auto simp: execute_def run_operation_def onSuccess_def split: if_splits prod.splits sum.splits)

lemma between_calls_new: "between_calls (new_CircuitBreaker t tm)"
  by (simp add: between_calls_def new_CircuitBreaker_def)

lemma between_calls_execute:
  assumes "between_calls s"
  shows "between_calls (fst (snd (execute clock operation s w)))"
  using assms
  by (auto simp: between_calls_def execute_def run_operation_def onSuccess_def onFailure_def Let_def
      split: prod.splits sum.splits)


text \<open>
  C1. A breaker with threshold \<open>t\<close> that is \<open>CLOSED\<close> with no failure counted (as the
  constructor leaves it) is \<open>OPEN\<close> after \<open>t\<close> consecutive executes that fail, whatever
  the operations are and would have done otherwise, with \<open>t\<close> failures counted (\<open>t\<close>
  counts executes: it is at least 1). While \<open>OPEN\<close> with less than \<open>timeout\<close> ms since the last
  failure, \<open>execute\<close> raises \<open>Circuit breaker is OPEN\<close> and neither the breaker nor the
  world changes, whatever the operation is: it is not run. While \<open>OPEN\<close> with at least
  \<open>timeout\<close> ms elapsed, the operation runs and sees the status \<open>HALF_OPEN\<close>; when it
  resolves the breaker is \<open>CLOSED\<close> with \<open>failureCount = 0\<close>, when it rejects the breaker
  is \<open>OPEN\<close> again with \<open>failureCount\<close> one more than before the call. Every execute that
  resolves leaves \<open>failureCount = 0\<close> and \<open>CLOSED\<close>. The state between two calls is one the
  constructor or an earlier call produced (\<open>between_calls\<close>).
\<close>

theorem circuit_breaker_transitions:
  fixes clock :: "'w \<Rightarrow> int" and ops :: "('a, 'w) operation list"
    and operation :: "('a, 'w) operation"
  shows "(0 < t \<and> length ops = t \<and> list_all isl (fst (executes clock ops s0 w0))
            \<and> status s0 = CLOSED \<and> failureCount s0 = 0 \<and> threshold s0 = int t
          \<longrightarrow> status (fst (snd (executes clock ops s0 w0))) = OPEN
            \<and> failureCount (fst (snd (executes clock ops s0 w0))) = t)
       \<and> (status s = OPEN \<and> clock w - lastFailureTime s < timeout s
          \<longrightarrow> execute clock operation s w = (Inl (Error ''Circuit breaker is OPEN''), s, w))
       \<and> (between_calls s \<and> status s = OPEN \<and> timeout s \<le> clock w - lastFailureTime s
          \<longrightarrow> execute clock operation s w =
               (case operation (s\<lparr>status := HALF_OPEN\<rparr>) w of
                  (Inr v, w') \<Rightarrow> (Inr v, s\<lparr>failureCount := 0, status := CLOSED\<rparr>, w')
                | (Inl e, w') \<Rightarrow>
                    (Inl e, s\<lparr>failureCount := failureCount s + 1, lastFailureTime := clock w',
                               status := OPEN\<rparr>, w')))
       \<and> (execute clock operation s w = (Inr v, s', w')
          \<longrightarrow> failureCount s' = 0 \<and> status s' = CLOSED)
       \<and> between_calls (new_CircuitBreaker failureThreshold timeoutMs)
       \<and> (between_calls s \<longrightarrow> between_calls (fst (snd (execute clock operation s w))))"
proof -
  have trip: "status (fst (snd (executes clock ops s0 w0))) = OPEN
      \<and> failureCount (fst (snd (executes clock ops s0 w0))) = t"
    if "0 < t" "length ops = t" "list_all isl (fst (executes clock ops s0 w0))"
      "status s0 = CLOSED" "failureCount s0 = 0" "threshold s0 = int t"
  proof -
    from that(1,2) have "ops \<noteq> []" by auto
    moreover from that(2,5,6) have "int (failureCount s0) + int (length ops) = threshold s0"
      by simp
    ultimately show ?thesis
      using failures_reach_threshold [OF that(4) _ _ that(3)] that(2,5) by simp
  qed
  show ?thesis
    using trip execute_rejects_while_open [of s clock w operation]
      execute_half_open [of s clock w operation]
      execute_resolved [of clock operation s w v s' w']
      between_calls_new [of failureThreshold timeoutMs]
      between_calls_execute [of s clock operation w]
    by blast
qed

theorem circuit_breaker_transitions_witness:
  "status (fst (snd (executes (\<lambda>w. w) [flaky, flaky, flaky] (new_CircuitBreaker 3 60000) 0)))
     = OPEN
   \<and> fst (snd (executes (\<lambda>w. w) [flaky, flaky, flaky] (new_CircuitBreaker 3 60000) 0))
     = tripped
   \<and> execute (\<lambda>w. w) succeeding tripped 30000
     = (Inl (Error ''Circuit breaker is OPEN''), tripped, 30000)
   \<and> execute (\<lambda>w. w) succeeding tripped 60015
     = (Inr (), tripped\<lparr>failureCount := 0, status := CLOSED\<rparr>, 60015)
   \<and> execute (\<lambda>w. w) failing tripped 60015
     = (Inl (Error ''down''),
        tripped\<lparr>failureCount := 4, lastFailureTime := 60020, status := OPEN\<rparr>, 60020)
   \<and> between_calls tripped"
proof -
  have rejects: "list_all isl (fst (executes (\<lambda>w. w) [flaky, flaky, flaky]
      (new_CircuitBreaker 3 60000) 0))"
    by (simp add: execute_def run_operation_def onFailure_def flaky_def down_def
        new_CircuitBreaker_def Let_def)
  have closed: "status (new_CircuitBreaker 3 60000) = CLOSED"
    "failureCount (new_CircuitBreaker 3 60000) = 0" "threshold (new_CircuitBreaker 3 60000) = 3"
    by (simp_all add: new_CircuitBreaker_def)
  have inv: "between_calls tripped"
    by (simp add: between_calls_def tripped_def)
  have run: "fst (snd (executes (\<lambda>w. w) [flaky, flaky, flaky]
      (new_CircuitBreaker 3 60000) 0)) = tripped"
    by (simp add: execute_def run_operation_def onFailure_def flaky_def down_def
        new_CircuitBreaker_def tripped_def Let_def)
  have a: "status (fst (snd (executes (\<lambda>w. w) [flaky, flaky, flaky]
      (new_CircuitBreaker 3 60000) 0))) = OPEN"
    using circuit_breaker_transitions [where t = 3 and ops = "[flaky, flaky, flaky]"
        and ?s0.0 = "new_CircuitBreaker 3 60000" and clock = "\<lambda>w. w" and ?w0.0 = 0,
        THEN conjunct1] rejects closed
    by simp
  have b: "execute (\<lambda>w. w) succeeding tripped 30000
      = (Inl (Error ''Circuit breaker is OPEN''), tripped, 30000)"
    using circuit_breaker_transitions [where clock = "\<lambda>w. w" and s = tripped and w = 30000
        and operation = succeeding, THEN conjunct2, THEN conjunct1]
    by (simp add: tripped_def)
  have c: "execute (\<lambda>w. w) succeeding tripped 60015
      = (Inr (), tripped\<lparr>failureCount := 0, status := CLOSED\<rparr>, 60015)"
    using circuit_breaker_transitions [where clock = "\<lambda>w. w" and s = tripped and w = 60015
        and operation = succeeding, THEN conjunct2, THEN conjunct2, THEN conjunct1] inv
    by (simp add: tripped_def succeeding_def)
  have d: "execute (\<lambda>w. w) failing tripped 60015
      = (Inl (Error ''down''),
         tripped\<lparr>failureCount := 4, lastFailureTime := 60020, status := OPEN\<rparr>, 60020)"
    using circuit_breaker_transitions [where clock = "\<lambda>w. w" and s = tripped and w = 60015
        and operation = failing, THEN conjunct2, THEN conjunct2, THEN conjunct1] inv
    by (simp add: tripped_def failing_def down_def)
  show ?thesis
    by (intro conjI a run b c d inv)
qed

section \<open>Properties of the retry handler\<close>

declare show_nat.simps [simp del]
declare retry_from.simps [simp del]

lemma show_nat_digit: "n < 10 \<Longrightarrow> show_nat n = [digit n]"
  by (simp add: show_nat.simps)

lemma show_int_3: "show_int 3 = ''3''"
  by (simp add: show_int_def show_nat_digit digit_def)

lemma calculateDelay_formula:
  "calculateDelay config attempt r =
     min (backoffMs config * 2 ^ nat (attempt - 1) * jitterFactor config r) (maxBackoffMs config)"
  by (simp add: calculateDelay_def jitterFactor_def Let_def)

lemma retry_from_rejected_last:
  assumes "operation w = (Inl e, w')" and "attempt = maxAttempts config"
  shows "retry_from rt config operation attempt lastError w =
     (Inl (Error (''Operation failed after '' @ show_int attempt @ '' attempts: '' @ message_of e)),
      [], w')"
  using assms by (simp add: retry_from.simps)

lemma retry_from_rejected_again:
  assumes "operation w = (Inl e, w')" and "attempt < maxAttempts config"
  shows "retry_from rt config operation attempt lastError w =
     (let delay = calculateDelay config attempt (math_random rt w');
          rest = retry_from rt config operation (attempt + 1) (Some e) (sleep rt delay w')
      in (fst rest, delay # fst (snd rest), snd (snd rest)))"
  using assms by (simp add: retry_from.simps [of rt config operation attempt] Let_def split_beta)


lemma includes_middle: "str_includes (before @ piece @ after) piece"
  unfolding str_includes_def sublist_def by blast

lemma includes_end: "str_includes (before @ piece) piece"
  using includes_middle [of before piece "[]"] by simp


lemma scenario_config_fields:
  "maxAttempts scenario_config = 3" "backoffMs scenario_config = 1000"
  "maxBackoffMs scenario_config = 10000" "jitter scenario_config = False"
  by (simp_all add: scenario_config_def createRetryHandler_def no_config_def)

text \<open>
  C2. With \<open>backoffMs = 1000\<close>, \<open>jitter = false\<close>, \<open>maxAttempts = 3\<close> and an operation that
  rejects on each of its three runs, the handler sleeps exactly 1000 ms before the second
  attempt and 2000 ms before the third, each delay being
  \<open>min (backoffMs * 2^(attempt-1) * jitterFactor) maxBackoffMs\<close> with factor 1, and the
  error it raises has a message that contains \<open>after 3 attempts\<close> and the message of the
  error of the third run.
\<close>

theorem retry_delays_and_final_error:
  fixes operation :: "'w \<Rightarrow> (thrown + 'a) \<times> 'w"
  assumes first: "operation w0 = (Inl e1, w1)"
    and second: "operation (sleep rt 1000 w1) = (Inl e2, w2)"
    and third: "operation (sleep rt 2000 w2) = (Inl e3, w3)"
  shows "retry_execute rt scenario_config operation w0 =
           (Inl (Error (''Operation failed after 3 attempts: '' @ message_of e3)),
            [1000, 2000], w3)
       \<and> str_includes (''Operation failed after 3 attempts: '' @ message_of e3)
            ''after 3 attempts''
       \<and> str_includes (''Operation failed after 3 attempts: '' @ message_of e3) (message_of e3)
       \<and> (\<forall>attempt r. calculateDelay scenario_config attempt r =
             min (backoffMs scenario_config * 2 ^ nat (attempt - 1)
                    * jitterFactor scenario_config r) (maxBackoffMs scenario_config))
       \<and> (\<forall>r. jitterFactor scenario_config r = 1)
       \<and> (\<forall>r. calculateDelay scenario_config 1 r = 1000)
       \<and> (\<forall>r. calculateDelay scenario_config 2 r = 2000)"
proof -
  have d1: "calculateDelay scenario_config 1 r = 1000" for r
    by (simp add: calculateDelay_def scenario_config_fields)
  have d2: "calculateDelay scenario_config 2 r = 2000" for r
    by (simp add: calculateDelay_def scenario_config_fields)
  have run3: "retry_from rt scenario_config operation 3 (Some e2) (sleep rt 2000 w2) =
      (Inl (Error (''Operation failed after 3 attempts: '' @ message_of e3)), [], w3)"
    using third
      retry_from_rejected_last [where operation = operation and w = "sleep rt 2000 w2"
        and attempt = 3 and config = scenario_config and rt = rt and lastError = "Some e2"]
    by (simp add: scenario_config_fields show_int_3)
  have run2: "retry_from rt scenario_config operation 2 (Some e1) (sleep rt 1000 w1) =
      (Inl (Error (''Operation failed after 3 attempts: '' @ message_of e3)), [2000], w3)"
    using second run3
      retry_from_rejected_again [where operation = operation and w = "sleep rt 1000 w1"
        and attempt = 2 and config = scenario_config and rt = rt and lastError = "Some e1"]
    by (simp add: scenario_config_fields d2)
  have run1: "retry_from rt scenario_config operation 1 None w0 =
      (Inl (Error (''Operation failed after 3 attempts: '' @ message_of e3)), [1000, 2000], w3)"
    using first run2
      retry_from_rejected_again [where operation = operation and w = w0
        and attempt = 1 and config = scenario_config and rt = rt and lastError = None]
    by (simp add: scenario_config_fields d1)
  have inc1: "str_includes (''Operation failed after 3 attempts: '' @ message_of e3)
      ''after 3 attempts''"
    using includes_middle [of "''Operation failed ''" "''after 3 attempts''"
        "'': '' @ message_of e3"]
    by simp
  have inc2: "str_includes (''Operation failed after 3 attempts: '' @ message_of e3)
      (message_of e3)"
    by (rule includes_end)
  have jf: "jitterFactor scenario_config r = 1" for r
    by (simp add: jitterFactor_def scenario_config_fields)
  show ?thesis
    using run1 inc1 inc2 jf d1 d2 calculateDelay_formula [of scenario_config]
    unfolding retry_execute_def by blast
qed


theorem retry_delays_and_final_error_witness:
  "retry_execute timer_runtime scenario_config down 0 =
     (Inl (Error ''Operation failed after 3 attempts: down''), [1000, 2000], 3015)
   \<and> str_includes ''Operation failed after 3 attempts: down'' ''after 3 attempts''
   \<and> str_includes ''Operation failed after 3 attempts: down'' ''down''"
  using retry_delays_and_final_error [of down 0 "Error ''down''" 5 timer_runtime
      "Error ''down''" 1010 "Error ''down''" 3015]
  by (simp add: down_def timer_runtime_def)


section \<open>Properties of the message queue manager\<close>

text \<open>
  C7. With a channel and a connection, when closing the channel fails, \<open>close()\<close> does not
  attempt to close the connection: the only call the broker sees is the channel's
  \<open>close\<close>, and the manager keeps both handles. The repository's test
  \<open>should handle close errors gracefully\<close> expects the connection's \<open>close\<close> to be called.
\<close>

theorem close_stops_after_channel_failure:
  "close close_failing_broker connected_manager start =
     (connected_manager, start\<lparr>calls := [ChannelClose 2]\<rparr>)
   \<and> ConnectionClose 1 \<notin> set (calls (snd (close close_failing_broker connected_manager start)))
   \<and> connection (fst (close close_failing_broker connected_manager start)) = Some 1
   \<and> close recording_broker connected_manager start =
     (connected_manager\<lparr>connection := None, channel := None\<rparr>,
      start\<lparr>calls := [ChannelClose 2, ConnectionClose 1]\<rparr>)"
  by (simp add: close_def close_connection_def close_failing_broker_def recording_broker_def
      connected_manager_def new_MessageQueueManager_def start_def called_def)

lemma close_channel_failure:
  assumes "channel m = Some ch" and "channel_close amqp ch w = (Inl e, w')"
  shows "close amqp m w = (m, w')"
  using assms by (simp add: close_def)


lemma deliver_append:
  "deliver amqp handler m (before @ after) w =
     deliver amqp handler m after (deliver amqp handler m before w)"
  by (induction before arbitrary: w) simp_all

lemma shouldRequeue_iff:
  "shouldRequeue error \<longleftrightarrow> (\<forall>text. error = Error text \<longrightarrow> \<not> str_includes text ''validation'')"
  by (cases error) simp_all

lemma on_message_handled:
  assumes "channel m = Some ch" and "json_parse amqp (content message) = Inr event"
    and "handler event message w = (Inr u, w1)"
  shows "on_message amqp handler m (Some message) w =
     (case channel_ack amqp ch message w1 of
        (Inl error, w2) \<Rightarrow> channel_nack amqp ch message False (shouldRequeue error) w2
      | (Inr u', w2) \<Rightarrow> (Inr (), w2))"
  using assms
  by (simp add: on_message_def reject_message_def split: prod.splits sum.splits)

lemma on_message_handler_raised:
  assumes "channel m = Some ch" and "json_parse amqp (content message) = Inr event"
    and "handler event message w = (Inl error, w1)"
  shows "on_message amqp handler m (Some message) w =
     channel_nack amqp ch message False (shouldRequeue error) w1"
  using assms by (simp add: on_message_def reject_message_def)

lemma on_message_parse_raised:
  assumes "channel m = Some ch" and "json_parse amqp (content message) = Inl error"
  shows "on_message amqp handler m (Some message) w =
     channel_nack amqp ch message False (shouldRequeue error) w"
  using assms by (simp add: on_message_def reject_message_def)

text \<open>
  C8. The consumer callback runs on every delivery in turn. For a delivered message on a
  manager with a channel: when parsing the envelope or the handler raises, the message is
  negatively acknowledged (\<open>nack(message, false, requeue)\<close>) with \<open>requeue = true\<close>, unless
  what was raised is an \<open>Error\<close> whose message contains \<open>validation\<close>, where
  \<open>requeue = false\<close>; when the handler resolves, \<open>ack(message)\<close> is called on the channel.
\<close>

theorem consumer_ack_or_nack:
  fixes amqp :: "'w amqplib"
  shows "(channel m = Some ch \<and> json_parse amqp (content message) = Inr event
            \<and> handler event message w = (Inr u, w1)
          \<longrightarrow> on_message amqp handler m (Some message) w =
               (case channel_ack amqp ch message w1 of
                  (Inl error, w2) \<Rightarrow> channel_nack amqp ch message False (shouldRequeue error) w2
                | (Inr u', w2) \<Rightarrow> (Inr (), w2)))
       \<and> (channel m = Some ch \<and> json_parse amqp (content message) = Inr event
            \<and> handler event message w = (Inl error, w1)
          \<longrightarrow> on_message amqp handler m (Some message) w =
               channel_nack amqp ch message False (shouldRequeue error) w1)
       \<and> (channel m = Some ch \<and> json_parse amqp (content message) = Inl error
          \<longrightarrow> on_message amqp handler m (Some message) w =
               channel_nack amqp ch message False (shouldRequeue error) w)
       \<and> (shouldRequeue error
            \<longleftrightarrow> (\<forall>text. error = Error text \<longrightarrow> \<not> str_includes text ''validation''))
       \<and> deliver amqp handler m (before @ delivery # after) w =
            deliver amqp handler m after
              (snd (on_message amqp handler m delivery (deliver amqp handler m before w)))"
  using on_message_handled [of m ch amqp message event handler w u w1]
    on_message_handler_raised [of m ch amqp message event handler w error w1]
    on_message_parse_raised [of m ch amqp message error handler w]
    shouldRequeue_iff [of error]
    deliver_append [of amqp handler m before "delivery # after" w]
  by simp

theorem consumer_ack_or_nack_witness:
  "on_message recording_broker handler_ok connected_manager (Some test_message) start =
     (Inr (), start\<lparr>calls := [Ack 2 test_message]\<rparr>)
   \<and> on_message recording_broker (handler_throwing (Error ''Processing failed''))
       connected_manager (Some test_message) start =
     (Inr (), start\<lparr>calls := [Nack 2 test_message False True]\<rparr>)
   \<and> on_message recording_broker (handler_throwing (Error ''validation: Invalid event format''))
       connected_manager (Some test_message) start =
     (Inr (), start\<lparr>calls := [Nack 2 test_message False False]\<rparr>)
   \<and> on_message recording_broker (handler_throwing (NonError ''validation''))
       connected_manager (Some test_message) start =
     (Inr (), start\<lparr>calls := [Nack 2 test_message False True]\<rparr>)
   \<and> on_message recording_broker handler_ok connected_manager
       (Some (test_message\<lparr>content := ''{''\<rparr>)) start =
     (Inr (), start\<lparr>calls := [Nack 2 (test_message\<lparr>content := ''{''\<rparr>) False True]\<rparr>)"
proof -
  have ch: "channel connected_manager = Some 2"
    by (simp add: connected_manager_def)
  have parse: "json_parse recording_broker (content test_message) = Inr (sample_event ''test-event-123'')"
    by (simp add: recording_broker_def test_message_def)
  have bad: "json_parse recording_broker (content (test_message\<lparr>content := ''{''\<rparr>))
      = Inl (Error ''Unexpected end of JSON input'')"
    by (simp add: recording_broker_def)
  have requeue: "shouldRequeue (Error ''Processing failed'')"
    "\<not> shouldRequeue (Error ''validation: Invalid event format'')"
    "shouldRequeue (NonError ''validation'')"
    "shouldRequeue (Error ''Unexpected end of JSON input'')"
    by (simp_all add: str_includes_def sublist_Cons_right prefix_Cons)
  have acked: "on_message recording_broker handler_ok connected_manager (Some test_message) start =
      (Inr (), start\<lparr>calls := [Ack 2 test_message]\<rparr>)"
    using consumer_ack_or_nack [where amqp = recording_broker and m = connected_manager
        and ch = 2 and message = test_message and event = "sample_event ''test-event-123''"
        and handler = handler_ok and w = start and u = "()" and ?w1.0 = start,
        THEN conjunct1] ch parse
    by (simp add: handler_ok_def recording_broker_def called_def start_def)
  have nacked: "on_message recording_broker (handler_throwing e) connected_manager
      (Some test_message) start =
      (Inr (), start\<lparr>calls := [Nack 2 test_message False (shouldRequeue e)]\<rparr>)" for e
    using consumer_ack_or_nack [where amqp = recording_broker and m = connected_manager
        and ch = 2 and message = test_message and event = "sample_event ''test-event-123''"
        and handler = "handler_throwing e" and w = start and error = e and ?w1.0 = start,
        THEN conjunct2, THEN conjunct1] ch parse
    by (simp add: handler_throwing_def recording_broker_def called_def start_def)
  have unparsed: "on_message recording_broker handler_ok connected_manager
      (Some (test_message\<lparr>content := ''{''\<rparr>)) start =
      (Inr (), start\<lparr>calls := [Nack 2 (test_message\<lparr>content := ''{''\<rparr>) False True]\<rparr>)"
    using consumer_ack_or_nack [where amqp = recording_broker and m = connected_manager
        and ch = 2 and message = "test_message\<lparr>content := ''{''\<rparr>"
        and handler = handler_ok and w = start
        and error = "Error ''Unexpected end of JSON input''",
        THEN conjunct2, THEN conjunct2, THEN conjunct1] ch bad requeue(4)
    by (simp add: recording_broker_def called_def start_def)
  show ?thesis
    using acked nacked [of "Error ''Processing failed''"]
      nacked [of "Error ''validation: Invalid event format''"]
      nacked [of "NonError ''validation''"] unparsed requeue
    by simp
qed


lemma publishEvent_no_channel:
  assumes "channel m = None" and "status (circuitBreaker m) \<noteq> OPEN"
  shows "publishEvent amqp clock m event key w =
     (Inl (Error ''Channel not initialized''),
      unpublished (clock w) m, w)"
  using assms
  by (simp add: publishEvent_def execute_def run_operation_def publish_body_def unpublished_def)

lemma publishEvent_no_channel_probe:
  assumes "channel m = None" and "status (circuitBreaker m) = OPEN"
    and "timeout (circuitBreaker m) \<le> clock w - lastFailureTime (circuitBreaker m)"
  shows "publishEvent amqp clock m event key w =
     (Inl (Error ''Channel not initialized''),
      unpublished (clock w) (m\<lparr>circuitBreaker := (circuitBreaker m)\<lparr>status := HALF_OPEN\<rparr>\<rparr>), w)"
  using assms
  by (simp add: publishEvent_def execute_def run_operation_def publish_body_def
      shouldAttemptReset_def unpublished_def)

lemma publishEvent_short_circuit:
  assumes "status (circuitBreaker m) = OPEN"
    and "clock w - lastFailureTime (circuitBreaker m) < timeout (circuitBreaker m)"
  shows "publishEvent amqp clock m event key w = (Inl (Error ''Circuit breaker is OPEN''), m, w)"
  using assms by (simp add: publishEvent_def execute_rejects_while_open)

lemma publishEvent_counted:
  assumes "channel m = None"
    and "publishEvent amqp clock m event key w = (Inl (Error ''Channel not initialized''), m', w')"
  shows "failureCount (circuitBreaker m') = failureCount (circuitBreaker m) + 1
       \<and> lastFailureTime (circuitBreaker m') = clock w
       \<and> threshold (circuitBreaker m') = threshold (circuitBreaker m)
       \<and> timeout (circuitBreaker m') = timeout (circuitBreaker m)
       \<and> channel m' = None \<and> w' = w
       \<and> (threshold (circuitBreaker m) \<le> int (failureCount (circuitBreaker m)) + 1
            \<longrightarrow> status (circuitBreaker m') = OPEN)"
proof (cases "status (circuitBreaker m) = OPEN")
  case False
  with assms show ?thesis
    by (auto simp: publishEvent_no_channel unpublished_def onFailure_def Let_def)
next
  case True
  show ?thesis
  proof (cases "clock w - lastFailureTime (circuitBreaker m) < timeout (circuitBreaker m)")
    case True
    with \<open>status (circuitBreaker m) = OPEN\<close> assms(2) show ?thesis
      by (simp add: publishEvent_short_circuit)
  next
    case False
    with \<open>status (circuitBreaker m) = OPEN\<close> assms show ?thesis
      by (auto simp: publishEvent_no_channel_probe unpublished_def onFailure_def Let_def)
  qed
qed

lemma three_unpublished_open:
  assumes "channel m0 = None" and "threshold (circuitBreaker m0) = 3"
    and "publishEvent amqp clock m0 e1 k1 w1 = (Inl (Error ''Channel not initialized''), m1, w1')"
    and "publishEvent amqp clock m1 e2 k2 w2 = (Inl (Error ''Channel not initialized''), m2, w2')"
    and "publishEvent amqp clock m2 e3 k3 w3 = (Inl (Error ''Channel not initialized''), m3, w3')"
  shows "status (circuitBreaker m3) = OPEN \<and> lastFailureTime (circuitBreaker m3) = clock w3
       \<and> timeout (circuitBreaker m3) = timeout (circuitBreaker m0)"
proof -
  note c1 = publishEvent_counted [OF assms(1) assms(3)]
  then have "channel m1 = None" by simp
  note c2 = publishEvent_counted [OF this assms(4)]
  then have "channel m2 = None" by simp
  note c3 = publishEvent_counted [OF this assms(5)]
  from c1 c2 assms(2) have "threshold (circuitBreaker m2) \<le> int (failureCount (circuitBreaker m2)) + 1"
    by simp
  with c1 c2 c3 show ?thesis by simp
qed

lemma fresh_manager_three_calls:
  fixes amqp :: "'w amqplib"
  shows "(let m0 = new_MessageQueueManager cfg;
              m1 = unpublished (clock w1) m0;
              m2 = unpublished (clock w2) m1;
              m3 = unpublished (clock w3) m2
          in publishEvent amqp clock m0 e1 k1 w1 = (Inl (Error ''Channel not initialized''), m1, w1)
           \<and> publishEvent amqp clock m1 e2 k2 w2 = (Inl (Error ''Channel not initialized''), m2, w2)
           \<and> publishEvent amqp clock m2 e3 k3 w3 = (Inl (Error ''Channel not initialized''), m3, w3)
           \<and> circuitBreaker m3 =
               \<lparr>status = OPEN, failureCount = 3, lastFailureTime = clock w3, threshold = 3,
                timeout = 30000\<rparr>)"
proof -
  define m0 where "m0 = new_MessageQueueManager cfg"
  define m1 where "m1 = unpublished (clock w1) m0"
  define m2 where "m2 = unpublished (clock w2) m1"
  define m3 where "m3 = unpublished (clock w3) m2"
  have b0: "circuitBreaker m0 = \<lparr>status = CLOSED, failureCount = 0, lastFailureTime = 0,
      threshold = 3, timeout = 30000\<rparr>" and c0: "channel m0 = None"
    by (simp_all add: m0_def new_MessageQueueManager_def new_CircuitBreaker_def)
  have b1: "circuitBreaker m1 = \<lparr>status = CLOSED, failureCount = 1, lastFailureTime = clock w1,
      threshold = 3, timeout = 30000\<rparr>" and c1: "channel m1 = None"
    using b0 c0 by (simp_all add: m1_def unpublished_def onFailure_def Let_def)
  have b2: "circuitBreaker m2 = \<lparr>status = CLOSED, failureCount = 2, lastFailureTime = clock w2,
      threshold = 3, timeout = 30000\<rparr>" and c2: "channel m2 = None"
    using b1 c1 by (simp_all add: m2_def unpublished_def onFailure_def Let_def)
  have b3: "circuitBreaker m3 = \<lparr>status = OPEN, failureCount = 3, lastFailureTime = clock w3,
      threshold = 3, timeout = 30000\<rparr>"
    using b2 by (simp add: m3_def unpublished_def onFailure_def Let_def)
  have p1: "publishEvent amqp clock m0 e1 k1 w1 = (Inl (Error ''Channel not initialized''), m1, w1)"
    using publishEvent_no_channel [OF c0, of amqp clock e1 k1 w1] b0 by (simp add: m1_def)
  have p2: "publishEvent amqp clock m1 e2 k2 w2 = (Inl (Error ''Channel not initialized''), m2, w2)"
    using publishEvent_no_channel [OF c1, of amqp clock e2 k2 w2] b1 by (simp add: m2_def)
  have p3: "publishEvent amqp clock m2 e3 k3 w3 = (Inl (Error ''Channel not initialized''), m3, w3)"
    using publishEvent_no_channel [OF c2, of amqp clock e3 k3 w3] b2 by (simp add: m3_def)
  from p1 p2 p3 b3 show ?thesis
    unfolding Let_def m0_def [symmetric] m1_def [symmetric] m2_def [symmetric] m3_def [symmetric]
    by blast
qed

text \<open>
  C10. A \<open>publishEvent\<close> on a manager without a channel whose breaker lets the call through
  (not \<open>OPEN\<close>, or \<open>OPEN\<close> with the timeout elapsed) raises \<open>Channel not initialized\<close>, and
  the breaker records it with \<open>onFailure\<close>. The breaker of a manager has threshold 3 and
  timeout 30000 ms. Three calls in a row on a new manager all raise that error and leave
  the breaker \<open>OPEN\<close>, and so do any three consecutive calls that raise it. From then on a
  call made less than 30000 ms after the last failure raises \<open>Circuit breaker is OPEN\<close>
  and changes neither the manager nor the world, whatever the channel and the broker
  are: the body is not evaluated. The manager being unchanged, the same holds of the call
  after it.
\<close>

theorem publish_without_channel_opens_breaker:
  fixes amqp :: "'w amqplib"
  shows "(channel m = None \<and> status (circuitBreaker m) \<noteq> OPEN
          \<longrightarrow> publishEvent amqp clock m event key w =
               (Inl (Error ''Channel not initialized''), unpublished (clock w) m, w))
       \<and> (channel m = None \<and> status (circuitBreaker m) = OPEN
            \<and> timeout (circuitBreaker m) \<le> clock w - lastFailureTime (circuitBreaker m)
          \<longrightarrow> publishEvent amqp clock m event key w =
               (Inl (Error ''Channel not initialized''),
                unpublished (clock w)
                  (m\<lparr>circuitBreaker := (circuitBreaker m)\<lparr>status := HALF_OPEN\<rparr>\<rparr>), w))
       \<and> circuitBreaker (new_MessageQueueManager cfg) = new_CircuitBreaker 3 30000
       \<and> (let m0 = new_MessageQueueManager cfg;
                m1 = unpublished (clock w1) m0;
                m2 = unpublished (clock w2) m1;
                m3 = unpublished (clock w3) m2
            in publishEvent amqp clock m0 e1 k1 w1 = (Inl (Error ''Channel not initialized''), m1, w1)
             \<and> publishEvent amqp clock m1 e2 k2 w2 = (Inl (Error ''Channel not initialized''), m2, w2)
             \<and> publishEvent amqp clock m2 e3 k3 w3 = (Inl (Error ''Channel not initialized''), m3, w3)
             \<and> circuitBreaker m3 =
                 \<lparr>status = OPEN, failureCount = 3, lastFailureTime = clock w3, threshold = 3,
                  timeout = 30000\<rparr>)
       \<and> (channel n0 = None \<and> threshold (circuitBreaker n0) = 3
            \<and> publishEvent amqp clock n0 e1 k1 w1 = (Inl (Error ''Channel not initialized''), n1, w1')
            \<and> publishEvent amqp clock n1 e2 k2 w2 = (Inl (Error ''Channel not initialized''), n2, w2')
            \<and> publishEvent amqp clock n2 e3 k3 w3 = (Inl (Error ''Channel not initialized''), n3, w3')
          \<longrightarrow> status (circuitBreaker n3) = OPEN \<and> lastFailureTime (circuitBreaker n3) = clock w3
            \<and> timeout (circuitBreaker n3) = timeout (circuitBreaker n0))
       \<and> (status (circuitBreaker m) = OPEN
            \<and> clock w - lastFailureTime (circuitBreaker m) < timeout (circuitBreaker m)
          \<longrightarrow> publishEvent amqp clock m event key w =
               (Inl (Error ''Circuit breaker is OPEN''), m, w))"
proof -
  have "circuitBreaker (new_MessageQueueManager cfg) = new_CircuitBreaker 3 30000"
    by (simp add: new_MessageQueueManager_def)
  then show ?thesis
    using publishEvent_no_channel [of m amqp clock event key w]
      publishEvent_no_channel_probe [of m clock w amqp event key]
      fresh_manager_three_calls [of cfg clock w1 w2 w3 amqp e1 k1 e2 k2 e3 k3]
      three_unpublished_open [of n0 amqp clock e1 k1 w1 n1 w1' e2 k2 w2 n2 w2' e3 k3 w3 n3 w3']
      publishEvent_short_circuit [of m clock w amqp event key]
    by blast
qed

theorem publish_without_channel_opens_breaker_witness:
  "publishEvent recording_broker time (new_MessageQueueManager test_config) (sample_event ''a'')
      None start =
     (Inl (Error ''Channel not initialized''),
      unpublished 0 (new_MessageQueueManager test_config), start)
   \<and> publishEvent recording_broker time (unpublished 10 (unpublished 0 (new_MessageQueueManager test_config)))
      (sample_event ''c'') None (start\<lparr>time := 20\<rparr>) =
     (Inl (Error ''Channel not initialized''), unplugged, start\<lparr>time := 20\<rparr>)
   \<and> circuitBreaker unplugged =
       \<lparr>status = OPEN, failureCount = 3, lastFailureTime = 20, threshold = 3, timeout = 30000\<rparr>
   \<and> publishEvent recording_broker time unplugged (sample_event ''d'') None
       (start\<lparr>time := 30019\<rparr>) =
     (Inl (Error ''Circuit breaker is OPEN''), unplugged, start\<lparr>time := 30019\<rparr>)
   \<and> publishEvent recording_broker time (unplugged\<lparr>channel := Some 2\<rparr>) (sample_event ''d'') None
       (start\<lparr>time := 30019\<rparr>) =
     (Inl (Error ''Circuit breaker is OPEN''), unplugged\<lparr>channel := Some 2\<rparr>,
      start\<lparr>time := 30019\<rparr>)
   \<and> publishEvent recording_broker time unplugged (sample_event ''e'') None
       (start\<lparr>time := 30020\<rparr>) =
     (Inl (Error ''Channel not initialized''),
      unpublished 30020 (unplugged\<lparr>circuitBreaker := (circuitBreaker unplugged)\<lparr>status := HALF_OPEN\<rparr>\<rparr>),
      start\<lparr>time := 30020\<rparr>)"
proof -
  have fresh: "channel (new_MessageQueueManager test_config) = None"
    "status (circuitBreaker (new_MessageQueueManager test_config)) \<noteq> OPEN"
    by (simp_all add: new_MessageQueueManager_def new_CircuitBreaker_def)
  have first: "publishEvent recording_broker time (new_MessageQueueManager test_config)
      (sample_event ''a'') None start =
      (Inl (Error ''Channel not initialized''),
       unpublished 0 (new_MessageQueueManager test_config), start)"
    using publish_without_channel_opens_breaker [where amqp = recording_broker and clock = time
        and m = "new_MessageQueueManager test_config" and event = "sample_event ''a''"
        and key = None and w = start, THEN conjunct1] fresh
    by (simp add: start_def)
  have three: "publishEvent recording_broker time
      (unpublished 10 (unpublished 0 (new_MessageQueueManager test_config)))
      (sample_event ''c'') None (start\<lparr>time := 20\<rparr>) =
      (Inl (Error ''Channel not initialized''), unplugged, start\<lparr>time := 20\<rparr>)
    \<and> circuitBreaker unplugged =
       \<lparr>status = OPEN, failureCount = 3, lastFailureTime = 20, threshold = 3, timeout = 30000\<rparr>"
    using publish_without_channel_opens_breaker [where amqp = recording_broker and clock = time
        and cfg = test_config and ?w1.0 = start and ?w2.0 = "start\<lparr>time := 10\<rparr>"
        and ?w3.0 = "start\<lparr>time := 20\<rparr>" and ?e3.0 = "sample_event ''c''" and ?k3.0 = None,
        THEN conjunct2, THEN conjunct2, THEN conjunct2, THEN conjunct1]
    by (simp add: Let_def unplugged_def start_def)
  then have breaker: "circuitBreaker unplugged =
       \<lparr>status = OPEN, failureCount = 3, lastFailureTime = 20, threshold = 3, timeout = 30000\<rparr>"
    by simp
  have rejected: "publishEvent recording_broker time unplugged (sample_event ''d'') None
      (start\<lparr>time := 30019\<rparr>) =
      (Inl (Error ''Circuit breaker is OPEN''), unplugged, start\<lparr>time := 30019\<rparr>)"
    using publish_without_channel_opens_breaker [where amqp = recording_broker and clock = time
        and m = unplugged and event = "sample_event ''d''" and key = None
        and w = "start\<lparr>time := 30019\<rparr>",
        THEN conjunct2, THEN conjunct2, THEN conjunct2, THEN conjunct2, THEN conjunct2] breaker
    by simp
  have rejected': "publishEvent recording_broker time (unplugged\<lparr>channel := Some 2\<rparr>)
      (sample_event ''d'') None (start\<lparr>time := 30019\<rparr>) =
      (Inl (Error ''Circuit breaker is OPEN''), unplugged\<lparr>channel := Some 2\<rparr>,
       start\<lparr>time := 30019\<rparr>)"
    using publish_without_channel_opens_breaker [where amqp = recording_broker and clock = time
        and m = "unplugged\<lparr>channel := Some 2\<rparr>" and event = "sample_event ''d''" and key = None
        and w = "start\<lparr>time := 30019\<rparr>",
        THEN conjunct2, THEN conjunct2, THEN conjunct2, THEN conjunct2, THEN conjunct2] breaker
    by simp
  have none: "channel unplugged = None"
    by (simp add: unplugged_def unpublished_def new_MessageQueueManager_def)
  have probe: "publishEvent recording_broker time unplugged (sample_event ''e'') None
       (start\<lparr>time := 30020\<rparr>) =
     (Inl (Error ''Channel not initialized''),
      unpublished 30020 (unplugged\<lparr>circuitBreaker := (circuitBreaker unplugged)\<lparr>status := HALF_OPEN\<rparr>\<rparr>),
      start\<lparr>time := 30020\<rparr>)"
    using publish_without_channel_opens_breaker [where amqp = recording_broker and clock = time
        and m = unplugged and event = "sample_event ''e''" and key = None
        and w = "start\<lparr>time := 30020\<rparr>",
        THEN conjunct2, THEN conjunct1] breaker none
    by simp
  show ?thesis
    using first three rejected rejected' probe by simp
qed



section \<open>Properties of the order service\<close>




lemma save_order_only_saved: "save_order k doc store = Inr store' \<Longrightarrow> saved doc"
  by (simp add: save_order_def saved_def split: if_splits)

lemma createOrder_saved:
  assumes "createOrder rt publish store customer its md w = (Inr doc, store', w')"
  shows "saved doc \<and> order_status doc = PENDING \<and> store' (orderId doc) = Some doc"
  using assms
  by (auto simp: createOrder_def save_order_def saved_def Let_def
      split: option.splits if_splits prod.splits)











section \<open>Properties of the inventory service\<close>

lemma or_zero_id: "or_zero x = x"
  by (simp add: or_zero_def)

lemma availableQuantity_derived:
  "availableQuantity doc = max 0 (stockQuantity doc - reservedQuantity doc)"
  by (simp add: availableQuantity_def or_zero_id)

lemma findOne_productId_id:
  "findOne_productId store ident = Some doc \<Longrightarrow> productId doc = ident"
  by (auto simp: findOne_productId_def find_Some_iff)

lemma written_fields:
  "productId (written this assigned old) = productId this"
  "stockQuantity (written this assigned old) = stockQuantity this"
  "reservedQuantity (written this assigned old) = reservedQuantity this"
  "isActive (written this assigned old) = isActive this"
  "valid_product (written this assigned old) = valid_product this"
  by (simp_all add: written_def valid_product_def)

lemma written_metadata:
  "product_metadata (written this assigned old)
     = (if assigned then product_metadata this else product_metadata old)"
  by (simp add: written_def)

lemma find_replaced:
  assumes "find (\<lambda>doc. productId doc = ident) store = Some doc" and "productId this = ident"
  shows "find (\<lambda>doc. productId doc = ident)
           (map (\<lambda>old. if productId old = ident then written this assigned old else old) store)
         = Some (written this assigned doc)"
  using assms by (induction store) (auto simp: written_fields split: if_splits)

lemma save_product_over:
  assumes "findOne_productId store ident = Some doc" and "productId this = ident"
    and "valid_product this"
  shows "\<exists>store'. save_product this assigned store = Inr store'
           \<and> findOne_productId store' ident = Some (written this assigned doc)"
proof -
  from assms(1) have "doc \<in> set store" "productId doc = ident"
    by (auto simp: findOne_productId_def find_Some_iff)
  then have "list_ex (\<lambda>old. productId old = productId this) store"
    using assms(2) by (auto simp: list_ex_iff)
  then show ?thesis
    using assms find_replaced [of ident store doc this assigned]
    by (simp add: save_product_def findOne_productId_def)
qed

lemma save_product_invalid:
  "\<not> valid_product this \<Longrightarrow> save_product this assigned store = Inl (validation_error ''Product'')"
  by (simp add: save_product_def)

lemma doc_reserveInventory_refused:
  assumes "availableQuantity this < quantity"
  shows "doc_reserveInventory store this quantity order_id now = (Inr False, this, store)"
  using assms by (simp add: doc_reserveInventory_def or_zero_id)

lemma doc_reserveInventory_granted:
  assumes "findOne_productId store ident = Some this" and "valid_product this"
    and "quantity \<le> availableQuantity this" and "0 \<le> reservedQuantity this + quantity"
  shows "\<exists>this' store' kept.
           doc_reserveInventory store this quantity order_id now = (Inr True, this', store')
           \<and> findOne_productId store' ident = Some kept
           \<and> reservedQuantity kept = reservedQuantity this + quantity
           \<and> stockQuantity kept = stockQuantity this
           \<and> isActive kept = isActive this \<and> valid_product kept
           \<and> product_metadata kept
               = (if product_metadata this = None then product_metadata this'
                  else product_metadata this)
           \<and> reservedQuantity this' = reservedQuantity this + quantity
           \<and> stockQuantity this' = stockQuantity this
           \<and> held_reservations this' =
               held_reservations this
                 @ [\<lparr>res_orderId = order_id, res_quantity = quantity, reservedAt = now\<rparr>]"
proof -
  define meta where "meta = (case product_metadata this of None \<Rightarrow> empty_meta | Some m \<Rightarrow> m)"
  define held where "held = (case reservations meta of None \<Rightarrow> [] | Some rs \<Rightarrow> rs)"
  define this2 where "this2 = this\<lparr>reservedQuantity := reservedQuantity this + quantity,
      product_metadata := Some (meta\<lparr>reservations :=
        Some (held @ [\<lparr>res_orderId = order_id, res_quantity = quantity, reservedAt = now\<rparr>])\<rparr>)\<rparr>"
  have run: "doc_reserveInventory store this quantity order_id now =
      (case save_product this2 (product_metadata this = None) store of
         Inl error \<Rightarrow> (Inl error, this2, store)
       | Inr store' \<Rightarrow> (Inr True, this2, store'))"
    using assms(3)
    by (simp add: doc_reserveInventory_def or_zero_id Let_def this2_def meta_def held_def
        split: sum.splits)
  from assms(1) have "productId this2 = ident"
    by (simp add: this2_def findOne_productId_id)
  moreover from assms(2,4) have valid2: "valid_product this2"
    by (simp add: this2_def valid_product_def)
  ultimately obtain store' where saved:
    "save_product this2 (product_metadata this = None) store = Inr store'"
    "findOne_productId store' ident = Some (written this2 (product_metadata this = None) this)"
    using save_product_over [OF assms(1)] by blast
  have held2: "held_reservations this2 =
      held_reservations this
        @ [\<lparr>res_orderId = order_id, res_quantity = quantity, reservedAt = now\<rparr>]"
    by (simp add: this2_def held_reservations_def meta_def held_def empty_meta_def
        split: option.splits)
  have "reservedQuantity this2 = reservedQuantity this + quantity"
    "stockQuantity this2 = stockQuantity this" "isActive this2 = isActive this"
    by (simp_all add: this2_def)
  with run saved valid2 held2 show ?thesis
    by (simp add: written_fields written_metadata)
qed

lemma doc_reserveInventory_invalid:
  assumes "quantity \<le> availableQuantity this" and "reservedQuantity this + quantity < 0"
  shows "fst (doc_reserveInventory store this quantity order_id now)
           = Inl (validation_error ''Product'')
       \<and> snd (snd (doc_reserveInventory store this quantity order_id now)) = store"
  using assms
  by (simp add: doc_reserveInventory_def or_zero_id Let_def save_product_def valid_product_def)








lemma createProduct_created:
  assumes "createProduct rt publish store name descr cost stock cat code md w = (Inr doc, store', w')"
  shows "stockQuantity doc = stock \<and> reservedQuantity doc = 0"
  using assms
  by (auto simp: createProduct_def Let_def split: option.splits prod.splits sum.splits)

lemma doc_releaseInventory_saved:
  assumes "findOne_productId store ident = Some this" and "valid_product this"
  shows "\<exists>this' store' kept.
           doc_releaseInventory store this quantity order_id = (Inr (), this', store')
           \<and> findOne_productId store' ident = Some kept
           \<and> stockQuantity this' = stockQuantity this
           \<and> reservedQuantity this' = max 0 (reservedQuantity this - quantity)
           \<and> stockQuantity kept = stockQuantity this
           \<and> reservedQuantity kept = max 0 (reservedQuantity this - quantity)"
proof -
  define this1 where "this1 = this\<lparr>reservedQuantity := max 0 (reservedQuantity this - quantity)\<rparr>"
  define this2 where "this2 =
      (case product_metadata this1 of
         None \<Rightarrow> this1
       | Some meta \<Rightarrow>
           (case reservations meta of
              None \<Rightarrow> this1
            | Some rs \<Rightarrow>
                this1\<lparr>product_metadata :=
                  Some (meta\<lparr>reservations :=
                    Some (filter (\<lambda>res. res_orderId res \<noteq> order_id) rs)\<rparr>)\<rparr>))"
  have run: "doc_releaseInventory store this quantity order_id =
      (case save_product this2 False store of
         Inl error \<Rightarrow> (Inl error, this2, store)
       | Inr store' \<Rightarrow> (Inr (), this2, store'))"
    unfolding doc_releaseInventory_def Let_def this2_def this1_def by (rule refl)
  have fields: "productId this2 = productId this" "stockQuantity this2 = stockQuantity this"
    "reservedQuantity this2 = max 0 (reservedQuantity this - quantity)"
    by (simp_all add: this2_def this1_def split: option.splits)
  from assms(2) have "valid_product this2"
    by (simp add: valid_product_def this2_def this1_def split: option.splits)
  moreover from assms(1) fields(1) have "productId this2 = ident"
    by (simp add: findOne_productId_id)
  ultimately obtain store' where
    "save_product this2 False store = Inr store'"
    "findOne_productId store' ident = Some (written this2 False this)"
    using save_product_over [OF assms(1)] by blast
  with run fields show ?thesis
    by (simp add: written_fields)
qed

lemma doc_updateStock_saved:
  assumes "findOne_productId store ident = Some this" and "valid_product this"
  shows "\<exists>this' store' kept.
           doc_updateStock store this newQuantity = (Inr (), this', store')
           \<and> findOne_productId store' ident = Some kept
           \<and> productId this' = ident \<and> valid_product this'
           \<and> stockQuantity this' = max 0 newQuantity
           \<and> reservedQuantity this' = reservedQuantity this
           \<and> stockQuantity kept = max 0 newQuantity
           \<and> reservedQuantity kept = reservedQuantity this"
proof -
  define this1 where "this1 = this\<lparr>stockQuantity := max 0 newQuantity\<rparr>"
  have run: "doc_updateStock store this newQuantity =
      (case save_product this1 False store of
         Inl error \<Rightarrow> (Inl error, this1, store)
       | Inr store' \<Rightarrow> (Inr (), this1, store'))"
    unfolding doc_updateStock_def Let_def this1_def by (rule refl)
  have fields: "stockQuantity this1 = max 0 newQuantity"
    "reservedQuantity this1 = reservedQuantity this"
    by (simp_all add: this1_def)
  from assms(2) have valid1: "valid_product this1"
    by (simp add: valid_product_def this1_def)
  from assms(1) have id1: "productId this1 = ident"
    by (simp add: this1_def findOne_productId_id)
  from valid1 id1 obtain store' where
    "save_product this1 False store = Inr store'"
    "findOne_productId store' ident = Some (written this1 False this)"
    using save_product_over [OF assms(1)] by blast
  with run fields valid1 id1 show ?thesis
    by (simp add: written_fields)
qed

lemma merge_metadata_saved:
  assumes "findOne_productId store ident = Some kept" and "productId this = ident"
    and "valid_product this"
  shows "\<exists>this' store'.
           merge_metadata store this md = (Inr (), this', store')
           \<and> findOne_productId store' ident
               = Some (case md of None \<Rightarrow> kept | Some m \<Rightarrow> this')
           \<and> stockQuantity this' = stockQuantity this
           \<and> reservedQuantity this' = reservedQuantity this"
proof (cases md)
  case None
  with assms(1) show ?thesis by (simp add: merge_metadata_def)
next
  case (Some m)
  define this1 where "this1 = this\<lparr>product_metadata := Some (spread_meta (product_metadata this) m)\<rparr>"
  have run: "merge_metadata store this md =
      (case save_product this1 True store of
         Inl error \<Rightarrow> (Inl error, this1, store)
       | Inr store' \<Rightarrow> (Inr (), this1, store'))"
    using Some by (simp add: merge_metadata_def Let_def this1_def split: sum.splits)
  from assms(3) have "valid_product this1"
    by (simp add: valid_product_def this1_def)
  moreover from assms(2) have "productId this1 = ident"
    by (simp add: this1_def)
  ultimately obtain store' where
    "save_product this1 True store = Inr store'"
    "findOne_productId store' ident = Some (written this1 True kept)"
    using save_product_over [OF assms(1)] by blast
  with run Some show ?thesis
    by (simp add: written_def this1_def)
qed

lemma updateProductStock_updated:
  assumes "findOne_productId store ident = Some doc" and "valid_product doc"
  shows "\<exists>doc' store' w' kept.
           updateProductStock rt publish store ident newQuantity md w = (Inr doc', store', w')
           \<and> findOne_productId store' ident = Some kept
           \<and> stockQuantity doc' = max 0 newQuantity
           \<and> reservedQuantity doc' = reservedQuantity doc
           \<and> stockQuantity kept = max 0 newQuantity
           \<and> reservedQuantity kept = reservedQuantity doc"
proof -
  from doc_updateStock_saved [OF assms, of newQuantity]
  obtain doc1 store1 kept1 where u:
    "doc_updateStock store doc newQuantity = (Inr (), doc1, store1)"
    "findOne_productId store1 ident = Some kept1"
    "productId doc1 = ident" "valid_product doc1"
    "stockQuantity doc1 = max 0 newQuantity" "reservedQuantity doc1 = reservedQuantity doc"
    "stockQuantity kept1 = max 0 newQuantity" "reservedQuantity kept1 = reservedQuantity doc"
    by blast
  from merge_metadata_saved [OF u(2,3,4), of md]
  obtain doc2 store2 where m:
    "merge_metadata store1 doc1 md = (Inr (), doc2, store2)"
    "findOne_productId store2 ident = Some (case md of None \<Rightarrow> kept1 | Some m \<Rightarrow> doc2)"
    "stockQuantity doc2 = stockQuantity doc1" "reservedQuantity doc2 = reservedQuantity doc1"
    by blast
  from assms(1) u(1) m(1)
  have "\<exists>w'. updateProductStock rt publish store ident newQuantity md w = (Inr doc2, store2, w')"
    by (simp add: updateProductStock_def Let_def)
  with u m show ?thesis
    by (cases md) auto
qed

text \<open>
  C4. \<open>availableQuantity\<close> is a getter, so of every document it is
  \<open>max 0 (stockQuantity - reservedQuantity)\<close> whenever it is read. For a product that is
  found and as \<open>save()\<close> lets products in, that is, of the document in memory and of the
  product found again under the same id: after a granted reservation
  \<open>max 0 (stock - (reserved + quantity))\<close>, after a release
  \<open>max 0 (stock - max 0 (reserved - quantity))\<close>, after \<open>updateStock\<close> and
  \<open>updateProductStock\<close> \<open>max 0 (max 0 newQuantity - reserved)\<close>; a refused reservation
  leaves document and collection as they were, and one that \<open>save()\<close> rejects leaves the
  collection as it was. Of the product \<open>createProduct\<close> returns it is \<open>max 0 stock\<close>.
\<close>

theorem available_quantity_is_derived:
  fixes rt :: "'w runtime" and this :: product
  assumes "findOne_productId store ident = Some doc" and "valid_product doc"
  shows "availableQuantity this = max 0 (stockQuantity this - reservedQuantity this)
       \<and> (createProduct rt publish shop name descr cost stock cat code md w
             = (Inr created, shop', w')
          \<longrightarrow> availableQuantity created = max 0 stock)
       \<and> (availableQuantity doc < quantity
          \<longrightarrow> doc_reserveInventory store doc quantity order_id now = (Inr False, doc, store))
       \<and> (quantity \<le> availableQuantity doc \<and> 0 \<le> reservedQuantity doc + quantity
          \<longrightarrow> (\<exists>this' store' kept.
                 doc_reserveInventory store doc quantity order_id now = (Inr True, this', store')
                 \<and> findOne_productId store' ident = Some kept
                 \<and> availableQuantity this'
                     = max 0 (stockQuantity doc - (reservedQuantity doc + quantity))
                 \<and> availableQuantity kept
                     = max 0 (stockQuantity doc - (reservedQuantity doc + quantity))))
       \<and> (quantity \<le> availableQuantity doc \<and> reservedQuantity doc + quantity < 0
          \<longrightarrow> fst (doc_reserveInventory store doc quantity order_id now)
                 = Inl (validation_error ''Product'')
               \<and> snd (snd (doc_reserveInventory store doc quantity order_id now)) = store)
       \<and> (\<exists>this' store' kept.
             doc_releaseInventory store doc quantity order_id = (Inr (), this', store')
             \<and> findOne_productId store' ident = Some kept
             \<and> availableQuantity this'
                 = max 0 (stockQuantity doc - max 0 (reservedQuantity doc - quantity))
             \<and> availableQuantity kept
                 = max 0 (stockQuantity doc - max 0 (reservedQuantity doc - quantity)))
       \<and> (\<exists>this' store' kept.
             doc_updateStock store doc newQuantity = (Inr (), this', store')
             \<and> findOne_productId store' ident = Some kept
             \<and> availableQuantity this' = max 0 (max 0 newQuantity - reservedQuantity doc)
             \<and> availableQuantity kept = max 0 (max 0 newQuantity - reservedQuantity doc))
       \<and> (\<exists>doc' store' w' kept.
             updateProductStock rt publish store ident newQuantity meta w = (Inr doc', store', w')
             \<and> findOne_productId store' ident = Some kept
             \<and> availableQuantity doc' = max 0 (max 0 newQuantity - reservedQuantity doc)
             \<and> availableQuantity kept = max 0 (max 0 newQuantity - reservedQuantity doc))"
proof -
  have created: "availableQuantity created = max 0 stock"
    if "createProduct rt publish shop name descr cost stock cat code md w
          = (Inr created, shop', w')"
    using createProduct_created [OF that] by (simp add: availableQuantity_derived)
  have granted: "\<exists>this' store' kept.
      doc_reserveInventory store doc quantity order_id now = (Inr True, this', store')
      \<and> findOne_productId store' ident = Some kept
      \<and> availableQuantity this' = max 0 (stockQuantity doc - (reservedQuantity doc + quantity))
      \<and> availableQuantity kept = max 0 (stockQuantity doc - (reservedQuantity doc + quantity))"
    if "quantity \<le> availableQuantity doc" "0 \<le> reservedQuantity doc + quantity"
    using doc_reserveInventory_granted [OF assms that, of order_id now]
    by (auto simp: availableQuantity_derived)
  have released: "\<exists>this' store' kept.
      doc_releaseInventory store doc quantity order_id = (Inr (), this', store')
      \<and> findOne_productId store' ident = Some kept
      \<and> availableQuantity this'
          = max 0 (stockQuantity doc - max 0 (reservedQuantity doc - quantity))
      \<and> availableQuantity kept
          = max 0 (stockQuantity doc - max 0 (reservedQuantity doc - quantity))"
    using doc_releaseInventory_saved [OF assms, of quantity order_id]
    by (auto simp: availableQuantity_derived)
  have restocked: "\<exists>this' store' kept.
      doc_updateStock store doc newQuantity = (Inr (), this', store')
      \<and> findOne_productId store' ident = Some kept
      \<and> availableQuantity this' = max 0 (max 0 newQuantity - reservedQuantity doc)
      \<and> availableQuantity kept = max 0 (max 0 newQuantity - reservedQuantity doc)"
    using doc_updateStock_saved [OF assms, of newQuantity]
    by (auto simp: availableQuantity_derived)
  have updated: "\<exists>doc' store' w' kept.
      updateProductStock rt publish store ident newQuantity meta w = (Inr doc', store', w')
      \<and> findOne_productId store' ident = Some kept
      \<and> availableQuantity doc' = max 0 (max 0 newQuantity - reservedQuantity doc)
      \<and> availableQuantity kept = max 0 (max 0 newQuantity - reservedQuantity doc)"
    using updateProductStock_updated [OF assms, of rt publish newQuantity meta w]
    by (auto simp: availableQuantity_derived)
  show ?thesis
    using created granted released restocked updated
      availableQuantity_derived [of this]
      doc_reserveInventory_refused [of doc quantity store order_id now]
      doc_reserveInventory_invalid [of quantity doc store order_id now]
    by blast
qed

theorem available_quantity_is_derived_witness:
  "availableQuantity gadget = 6
   \<and> (\<exists>created shop' w'.
        createProduct service_runtime accepting [] ''Gadget'' ''A gadget'' 50 10 ''tools'' ''G-1''
          None start = (Inr created, shop', w')
        \<and> availableQuantity created = 10)
   \<and> doc_reserveInventory [gadget] gadget 7 ''o1'' 0 = (Inr False, gadget, [gadget])
   \<and> (\<exists>this' store' kept.
        doc_reserveInventory [gadget] gadget 6 ''o1'' 0 = (Inr True, this', store')
        \<and> findOne_productId store' ''p1'' = Some kept
        \<and> availableQuantity this' = 0 \<and> availableQuantity kept = 0)
   \<and> fst (doc_reserveInventory [gadget] gadget (- 5) ''o1'' 0)
       = Inl (validation_error ''Product'')
   \<and> snd (snd (doc_reserveInventory [gadget] gadget (- 5) ''o1'' 0)) = [gadget]
   \<and> (\<exists>this' store' kept.
        doc_releaseInventory [gadget] gadget 6 ''o1'' = (Inr (), this', store')
        \<and> findOne_productId store' ''p1'' = Some kept
        \<and> availableQuantity this' = 10 \<and> availableQuantity kept = 10)
   \<and> (\<exists>this' store' kept.
        doc_updateStock [gadget] gadget 3 = (Inr (), this', store')
        \<and> findOne_productId store' ''p1'' = Some kept
        \<and> availableQuantity this' = 0 \<and> availableQuantity kept = 0)
   \<and> (\<exists>doc' store' w' kept.
        updateProductStock service_runtime accepting [gadget] ''p1'' 3 None start
          = (Inr doc', store', w')
        \<and> findOne_productId store' ''p1'' = Some kept
        \<and> availableQuantity doc' = 0 \<and> availableQuantity kept = 0)"
proof -
  have found: "findOne_productId [gadget] ''p1'' = Some gadget"
    by (simp add: findOne_productId_def gadget_def)
  have valid: "valid_product gadget"
    by (simp add: valid_product_def gadget_def)
  have q: "stockQuantity gadget = 10" "reservedQuantity gadget = 4"
    by (simp_all add: gadget_def)
  define created where "created =
      \<lparr>productId = ''3f2c'', product_name = ''Gadget'', description = ''A gadget'', price = 50,
       stockQuantity = 10, reservedQuantity = 0, category = ''tools'', sku = ''G-1'',
       isActive = True, product_metadata = Some empty_meta\<rparr>"
  have made: "createProduct service_runtime accepting [] ''Gadget'' ''A gadget'' 50 10 ''tools''
      ''G-1'' None start
      = (Inr created, [created],
         publishInventoryEvent service_runtime accepting ''inventory.updated'' created None start)"
    by (simp add: createProduct_def findOne_sku_def save_product_def valid_product_def Let_def
        service_runtime_def start_def created_def)
  note spec = available_quantity_is_derived [OF found valid, where this = gadget
      and order_id = "''o1''" and now = 0 and newQuantity = 3 and rt = service_runtime
      and publish = accepting and meta = None and w = start]
  have a: "availableQuantity gadget = 6"
    using spec [THEN conjunct1] q by simp
  have b: "\<exists>created shop' w'.
      createProduct service_runtime accepting [] ''Gadget'' ''A gadget'' 50 10 ''tools'' ''G-1''
        None start = (Inr created, shop', w')
      \<and> availableQuantity created = 10"
    using spec [where shop = "[]" and name = "''Gadget''" and descr = "''A gadget''" and cost = 50
        and stock = 10 and cat = "''tools''" and code = "''G-1''" and md = None
        and created = created and shop' = "[created]"
        and w' = "publishInventoryEvent service_runtime accepting ''inventory.updated'' created
          None start", THEN conjunct2, THEN conjunct1] made
    by simp
  have c: "doc_reserveInventory [gadget] gadget 7 ''o1'' 0 = (Inr False, gadget, [gadget])"
    using spec [where quantity = 7, THEN conjunct2, THEN conjunct2, THEN conjunct1] a by simp
  have d: "\<exists>this' store' kept.
      doc_reserveInventory [gadget] gadget 6 ''o1'' 0 = (Inr True, this', store')
      \<and> findOne_productId store' ''p1'' = Some kept
      \<and> availableQuantity this' = 0 \<and> availableQuantity kept = 0"
    using spec [where quantity = 6, THEN conjunct2, THEN conjunct2, THEN conjunct2, THEN conjunct1]
      a q by simp
  have e: "fst (doc_reserveInventory [gadget] gadget (- 5) ''o1'' 0)
        = Inl (validation_error ''Product'')
      \<and> snd (snd (doc_reserveInventory [gadget] gadget (- 5) ''o1'' 0)) = [gadget]"
    using spec [where quantity = "- 5", THEN conjunct2, THEN conjunct2, THEN conjunct2,
        THEN conjunct2, THEN conjunct1] a q by simp
  have f: "\<exists>this' store' kept.
      doc_releaseInventory [gadget] gadget 6 ''o1'' = (Inr (), this', store')
      \<and> findOne_productId store' ''p1'' = Some kept
      \<and> availableQuantity this' = 10 \<and> availableQuantity kept = 10"
    using spec [where quantity = 6, THEN conjunct2, THEN conjunct2, THEN conjunct2, THEN conjunct2,
        THEN conjunct2, THEN conjunct1] q by simp
  have g: "\<exists>this' store' kept.
      doc_updateStock [gadget] gadget 3 = (Inr (), this', store')
      \<and> findOne_productId store' ''p1'' = Some kept
      \<and> availableQuantity this' = 0 \<and> availableQuantity kept = 0"
    using spec [THEN conjunct2, THEN conjunct2, THEN conjunct2, THEN conjunct2, THEN conjunct2,
        THEN conjunct2, THEN conjunct1] q by simp
  have h: "\<exists>doc' store' w' kept.
      updateProductStock service_runtime accepting [gadget] ''p1'' 3 None start
        = (Inr doc', store', w')
      \<and> findOne_productId store' ''p1'' = Some kept
      \<and> availableQuantity doc' = 0 \<and> availableQuantity kept = 0"
    using spec [THEN conjunct2, THEN conjunct2, THEN conjunct2, THEN conjunct2, THEN conjunct2,
        THEN conjunct2, THEN conjunct2] q by simp
  from a b c d e f g h show ?thesis
    by (intro conjI) (elim conjE, assumption)+
qed


section \<open>Properties of the notification service\<close>








end
